theory Spec2Isabelle
  imports Complex_Main "HOL-Library.AList"
begin

section \<open>Python values and exceptions\<close>

text \<open>
  The serializers of the persistence lesson (\<^verbatim>\<open>inflammation/serializers.py\<close>) are
  dynamically typed: they accept whatever Python value the caller passes and raise
  Python's built-in exceptions. The universe below holds the values the code can meet:
  what \<^verbatim>\<open>json.load\<close> can return, and instances of the two model classes.

  \<^item> A dictionary is an association list in insertion order, with string keys (a generic
    record is a mapping from field names to values).
  \<^item> A float is a finite float, given by the real number it denotes, or one of the
    three values \<^verbatim>\<open>inf\<close>, \<^verbatim>\<open>-inf\<close> and \<^verbatim>\<open>nan\<close>.
  \<^item> \<open>Observation day value\<close> and \<open>Patient name observations\<close> are instances of
    \<^verbatim>\<open>models.Observation\<close> and \<^verbatim>\<open>models.Patient\<close>, by the attributes the serializers
    and the lesson's test read.
\<close>

datatype pyfloat = Finite real | PosInf | NegInf | NaN

datatype pyval =
    PyNone
  | PyBool bool
  | PyInt int
  | PyFloat pyfloat
  | PyStr string
  | PyList "pyval list"
  | PyDict "(string \<times> pyval) list"
  | Observation pyval pyval
  | Patient pyval pyval

datatype error =
    NotImplementedError
  | AttributeError
  | TypeError
  | KeyError string
  | ValueError
  | JSONDecodeError
  | UnicodeDecodeError
  | RecursionError
  | OSError

text \<open>
  A list comprehension evaluates its element expression from left to right; the first
  exception ends it.
\<close>

fun traverse :: "('a \<Rightarrow> error + 'b) \<Rightarrow> 'a list \<Rightarrow> error + 'b list" where
  "traverse f [] = Inr []"
| "traverse f (x # xs) =
     (case f x of
        Inl e \<Rightarrow> Inl e
      | Inr y \<Rightarrow> (case traverse f xs of Inl e \<Rightarrow> Inl e | Inr ys \<Rightarrow> Inr (y # ys)))"

text \<open>The same for results that are there already: the first exception in the list wins.\<close>

fun sequence_results :: "(error + 'a) list \<Rightarrow> error + 'a list" where
  "sequence_results [] = Inr []"
| "sequence_results (r # rs) =
     (case r of
        Inl e \<Rightarrow> Inl e
      | Inr y \<Rightarrow> (case sequence_results rs of Inl e \<Rightarrow> Inl e | Inr ys \<Rightarrow> Inr (y # ys)))"

text \<open>
  \<^verbatim>\<open>for x in v\<close>: a list yields its elements, a dictionary its keys, a string its
  characters; nothing else in the universe is iterable.
\<close>

fun py_iter :: "pyval \<Rightarrow> error + pyval list" where
  "py_iter (PyList xs) = Inr xs"
| "py_iter (PyDict kw) = Inr (map (\<lambda>p. PyStr (fst p)) kw)"
| "py_iter (PyStr s) = Inr (map (\<lambda>c. PyStr [c]) s)"
| "py_iter v = Inl TypeError"

text \<open>
  \<^verbatim>\<open>v.attr\<close> for the four attribute names the serializers read. Only model instances
  have them.
\<close>

fun py_getattr :: "pyval \<Rightarrow> string \<Rightarrow> error + pyval" where
  "py_getattr (Observation d v) a =
     (if a = ''day'' then Inr d else if a = ''value'' then Inr v else Inl AttributeError)"
| "py_getattr (Patient n os) a =
     (if a = ''name'' then Inr n else if a = ''observations'' then Inr os
      else Inl AttributeError)"
| "py_getattr v a = Inl AttributeError"

text \<open>
  \<^verbatim>\<open>item.pop(key)\<close>: on a dictionary it removes the key and returns its value together
  with the dictionary as it is afterwards, or raises \<^verbatim>\<open>KeyError\<close>; a list has a
  \<^verbatim>\<open>pop\<close> that rejects a string index; no other value has a \<^verbatim>\<open>pop\<close>.
\<close>

fun py_pop :: "pyval \<Rightarrow> string \<Rightarrow> error + (pyval \<times> pyval)" where
  "py_pop (PyDict kw) k =
     (case map_of kw k of
        None \<Rightarrow> Inl (KeyError k)
      | Some v \<Rightarrow> Inr (v, PyDict (AList.delete k kw)))"
| "py_pop (PyList xs) k = Inl TypeError"
| "py_pop v k = Inl AttributeError"

text \<open>
  \<^verbatim>\<open>item[key] = v\<close>: a dictionary keeps the position of a key it has and appends a new
  one; the code reaches the assignment only with a dictionary.
\<close>

fun py_setitem :: "pyval \<Rightarrow> string \<Rightarrow> pyval \<Rightarrow> error + pyval" where
  "py_setitem (PyDict kw) k v = Inr (PyDict (AList.update k v kw))"
| "py_setitem item k v = Inl TypeError"

section \<open>The model classes\<close>

text \<open>
  Modelled from the spec: the classes \<^verbatim>\<open>models.Observation\<close> and \<^verbatim>\<open>models.Patient\<close>
  (module \<^verbatim>\<open>inflammation/models.py\<close> is not part of the sources). The spec gives an
  observation the fields \<open>day\<close> and \<open>value\<close> and a patient the fields \<open>name\<close> and
  \<open>observations\<close>, calls both plain data holders with no behaviour beyond storage, and
  has a record built from a mapping whose field set matches exactly; the lesson's test
  calls \<^verbatim>\<open>models.Observation(i, i + 1)\<close> and \<^verbatim>\<open>models.Patient('Alice', [...])\<close>. So
  \<^verbatim>\<open>model(**d)\<close> needs a dictionary (\<^verbatim>\<open>TypeError\<close> otherwise), raises \<^verbatim>\<open>TypeError\<close>
  for a keyword that is no parameter and for a parameter without an argument, and
  stores the arguments unchecked.
\<close>

datatype model = Observation_model | Patient_model

fun init_params :: "model \<Rightarrow> string list" where
  "init_params Observation_model = [''day'', ''value'']"
| "init_params Patient_model = [''name'', ''observations'']"

fun instance_of :: "model \<Rightarrow> pyval \<Rightarrow> pyval \<Rightarrow> pyval" where
  "instance_of Observation_model a b = Observation a b"
| "instance_of Patient_model a b = Patient a b"

definition construct :: "model \<Rightarrow> pyval \<Rightarrow> error + pyval" where
  "construct m d =
     (case d of
        PyDict kw \<Rightarrow>
          (if list_all (\<lambda>k. k \<in> set (init_params m)) (map fst kw) then
             (case (map_of kw (init_params m ! 0), map_of kw (init_params m ! 1)) of
                (Some a, Some b) \<Rightarrow> Inr (instance_of m a b)
              | _ \<Rightarrow> Inl TypeError)
           else Inl TypeError)
      | _ \<Rightarrow> Inl TypeError)"

section \<open>The class hierarchy\<close>

text \<open>
  \<^verbatim>\<open>Serializer\<close> is the base class; \<^verbatim>\<open>ObservationSerializer\<close> and
  \<^verbatim>\<open>PatientSerializer\<close> derive from it, \<^verbatim>\<open>PatientJSONSerializer\<close> from
  \<^verbatim>\<open>PatientSerializer\<close>. All methods are class methods: a call \<^verbatim>\<open>C.m(...)\<close> runs
  the body of the first class in the method resolution order of \<open>C\<close> that defines
  \<open>m\<close>, with \<open>cls = C\<close>.
\<close>

datatype serializer =
    Serializer
  | ObservationSerializer
  | PatientSerializer
  | PatientJSONSerializer

datatype operation = M_serialize | M_save | M_deserialize | M_load

fun mro :: "serializer \<Rightarrow> serializer list" where
  "mro Serializer = [Serializer]"
| "mro ObservationSerializer = [ObservationSerializer, Serializer]"
| "mro PatientSerializer = [PatientSerializer, Serializer]"
| "mro PatientJSONSerializer = [PatientJSONSerializer, PatientSerializer, Serializer]"

fun class_defines :: "serializer \<Rightarrow> operation \<Rightarrow> bool" where
  "class_defines Serializer m = True"
| "class_defines ObservationSerializer m = (m = M_serialize \<or> m = M_deserialize)"
| "class_defines PatientSerializer m = (m = M_serialize \<or> m = M_deserialize)"
| "class_defines PatientJSONSerializer m = (m = M_save \<or> m = M_load)"

definition resolve :: "serializer \<Rightarrow> operation \<Rightarrow> serializer option" where
  "resolve c m = find (\<lambda>k. class_defines k m) (mro c)"

text \<open>The class attribute \<^verbatim>\<open>model\<close>, set by the two record serializers and inherited.\<close>

fun model_attr :: "serializer \<Rightarrow> model option" where
  "model_attr Serializer = None"
| "model_attr ObservationSerializer = Some Observation_model"
| "model_attr PatientSerializer = Some Patient_model"
| "model_attr PatientJSONSerializer = Some Patient_model"

definition cls_model :: "serializer \<Rightarrow> pyval \<Rightarrow> error + pyval" where
  "cls_model cls d =
     (case model_attr cls of None \<Rightarrow> Inl AttributeError | Some m \<Rightarrow> construct m d)"

section \<open>The JSON library and the file system\<close>

text \<open>
  The \<^verbatim>\<open>json\<close> module and the files are not code of the lesson; they are modelled by
  what the standard library of CPython 3.11 does. The characters of a JSON text are not
  modelled. A document is the tree that the decoder reads from a text:
  \<^item> \<open>JInt\<close> is an integer literal; \<open>JFloat\<close> is a number with a fraction or an
    exponent, given by the finite float it is read as; \<open>JLarge\<close> is such a number too
    large for a float, which is read as \<^verbatim>\<open>inf\<close> or (\<open>JLarge True\<close>) \<^verbatim>\<open>-inf\<close>;
  \<^item> \<open>JNaN\<close>, \<open>JInfinity\<close> and \<open>JNegInfinity\<close> are the tokens \<^verbatim>\<open>NaN\<close>, \<^verbatim>\<open>Infinity\<close>
    and \<^verbatim>\<open>-Infinity\<close>. They are no JSON, but the encoder writes them for the three
    floats that are not finite and the decoder reads them back.

  Converting between an integer and its decimal digits raises \<^verbatim>\<open>ValueError\<close> when the
  integer has more than 4300 digits, in the encoder and in the decoder alike.
\<close>

definition int_str_limit :: int where
  "int_str_limit = 10 ^ 4300"

definition int_str_ok :: "int \<Rightarrow> bool" where
  "int_str_ok i = (\<bar>i\<bar> < int_str_limit)"

datatype json =
    JNull
  | JBool bool
  | JInt int
  | JFloat real
  | JLarge bool
  | JNaN
  | JInfinity
  | JNegInfinity
  | JString string
  | JArray "json list"
  | JObject "(string \<times> json) list"

text \<open>
  \<open>to_json\<close> is the encoder's conversion table. An instance of a class is not JSON
  serializable (\<^verbatim>\<open>TypeError\<close>). The elements of a list and the values of a dictionary
  are encoded from left to right.
\<close>

fun float_to_json :: "pyfloat \<Rightarrow> json" where
  "float_to_json (Finite x) = JFloat x"
| "float_to_json PosInf = JInfinity"
| "float_to_json NegInf = JNegInfinity"
| "float_to_json NaN = JNaN"

fun to_json :: "pyval \<Rightarrow> error + json" where
  "to_json PyNone = Inr JNull"
| "to_json (PyBool b) = Inr (JBool b)"
| "to_json (PyInt i) = (if int_str_ok i then Inr (JInt i) else Inl ValueError)"
| "to_json (PyFloat x) = Inr (float_to_json x)"
| "to_json (PyStr s) = Inr (JString s)"
| "to_json (PyList xs) = map_sum id JArray (sequence_results (map to_json xs))"
| "to_json (PyDict kw) =
     map_sum id JObject
       (sequence_results (map (\<lambda>(k, v). map_sum id (Pair k) (to_json v)) kw))"
| "to_json (Observation d v) = Inl TypeError"
| "to_json (Patient n os) = Inl TypeError"

text \<open>
  \<open>from_json\<close> is the decoder's conversion table. In an object a repeated key keeps
  its first position and its last value.
\<close>

fun from_json :: "json \<Rightarrow> error + pyval" where
  "from_json JNull = Inr PyNone"
| "from_json (JBool b) = Inr (PyBool b)"
| "from_json (JInt i) = (if int_str_ok i then Inr (PyInt i) else Inl ValueError)"
| "from_json (JFloat x) = Inr (PyFloat (Finite x))"
| "from_json (JLarge negative) = Inr (PyFloat (if negative then NegInf else PosInf))"
| "from_json JNaN = Inr (PyFloat NaN)"
| "from_json JInfinity = Inr (PyFloat PosInf)"
| "from_json JNegInfinity = Inr (PyFloat NegInf)"
| "from_json (JString s) = Inr (PyStr s)"
| "from_json (JArray xs) = map_sum id PyList (sequence_results (map from_json xs))"
| "from_json (JObject kw) =
     map_sum id (\<lambda>items. PyDict (foldl (\<lambda>d (k, v). AList.update k v d) [] items))
       (sequence_results (map (\<lambda>(k, v). map_sum id (Pair k) (from_json v)) kw))"

text \<open>
  What a file holds: a text that the decoder reads as a document; no character at all;
  a text that the decoder rejects with \<^verbatim>\<open>JSONDecodeError\<close>; a JSON text nested deeper
  than the decoder can follow (\<^verbatim>\<open>RecursionError\<close>); or bytes that are no text in the
  encoding of \<^verbatim>\<open>open\<close> (\<^verbatim>\<open>UnicodeDecodeError\<close> when they are read).
\<close>

datatype file_text = JSONText json | EmptyText | InvalidText | DeepText | NoText

text \<open>
  All files are regular files that can be read: what is written to a path is what is
  read from it, and a write to an open file does not fail. A file system maps a path
  to the text of the file there; \<open>read_only\<close> holds the paths that cannot be opened
  for writing. \<^verbatim>\<open>open(path, 'w')\<close> empties the file (or creates it) before anything
  is written; \<^verbatim>\<open>open(path)\<close> needs the file to exist.
\<close>

record filesystem =
  files :: "string \<rightharpoonup> file_text"
  read_only :: "string set"

definition write_text :: "filesystem \<Rightarrow> string \<Rightarrow> file_text \<Rightarrow> filesystem" where
  "write_text fs path t = fs\<lparr>files := (files fs)(path \<mapsto> t)\<rparr>"

definition open_w :: "filesystem \<Rightarrow> string \<Rightarrow> error + filesystem" where
  "open_w fs path =
     (if path \<in> read_only fs then Inl OSError else Inr (write_text fs path EmptyText))"

definition open_r :: "filesystem \<Rightarrow> string \<Rightarrow> error + file_text" where
  "open_r fs path = (case files fs path of None \<Rightarrow> Inl OSError | Some t \<Rightarrow> Inr t)"

text \<open>
  \<^verbatim>\<open>json.dump(obj, fp)\<close> writes the text piece by piece while it encodes. When a value
  cannot be encoded it raises; the opening bracket of a list or dictionary, and
  whatever was encoded before the failure, is in the file by then.
\<close>

definition json_dump :: "pyval \<Rightarrow> string \<Rightarrow> filesystem \<Rightarrow> (error + unit) \<times> filesystem" where
  "json_dump obj path fs =
     (case to_json obj of
        Inr j \<Rightarrow> (Inr (), write_text fs path (JSONText j))
      | Inl e \<Rightarrow>
          (Inl e,
           (case obj of
              PyList xs \<Rightarrow> write_text fs path InvalidText
            | PyDict kw \<Rightarrow> write_text fs path InvalidText
            | _ \<Rightarrow> fs)))"

fun json_load :: "file_text \<Rightarrow> error + pyval" where
  "json_load (JSONText j) = from_json j"
| "json_load EmptyText = Inl JSONDecodeError"
| "json_load InvalidText = Inl JSONDecodeError"
| "json_load DeepText = Inl RecursionError"
| "json_load NoText = Inl UnicodeDecodeError"

section \<open>The serializers\<close>

subsection \<open>\<^verbatim>\<open>Serializer\<close>\<close>

text \<open>
  Every body of the base class is \<^verbatim>\<open>raise NotImplementedError\<close>. In the embedding
  \<open>serialize\<close> and \<open>deserialize\<close> return their result together with the batch as the
  call leaves it, \<open>save\<close> returns the file system as the call leaves it, and \<open>load\<close>
  only reads the file system.
\<close>

definition Serializer_serialize :: "serializer \<Rightarrow> pyval \<Rightarrow> (error + pyval) \<times> pyval" where
  "Serializer_serialize cls instances = (Inl NotImplementedError, instances)"

definition Serializer_save ::
  "serializer \<Rightarrow> pyval \<Rightarrow> string \<Rightarrow> filesystem \<Rightarrow> (error + unit) \<times> filesystem" where
  "Serializer_save cls instances path fs = (Inl NotImplementedError, fs)"

definition Serializer_deserialize :: "serializer \<Rightarrow> pyval \<Rightarrow> (error + pyval) \<times> pyval" where
  "Serializer_deserialize cls data = (Inl NotImplementedError, data)"

definition Serializer_load :: "serializer \<Rightarrow> string \<Rightarrow> filesystem \<Rightarrow> error + pyval" where
  "Serializer_load cls path fs = Inl NotImplementedError"

subsection \<open>\<^verbatim>\<open>ObservationSerializer\<close>\<close>

text \<open>
  \<^verbatim>\<open>
  return [{
      'day': instance.day,
      'value': instance.value,
  } for instance in instances]
  \<close>
\<close>

definition ObservationSerializer_serialize ::
  "serializer \<Rightarrow> pyval \<Rightarrow> (error + pyval) \<times> pyval" where
  "ObservationSerializer_serialize cls instances =
     (case py_iter instances of
        Inl e \<Rightarrow> (Inl e, instances)
      | Inr xs \<Rightarrow>
          (map_sum id PyList
             (traverse
                (\<lambda>instance.
                   case py_getattr instance ''day'' of
                     Inl e \<Rightarrow> Inl e
                   | Inr d \<Rightarrow>
                       (case py_getattr instance ''value'' of
                          Inl e \<Rightarrow> Inl e
                        | Inr v \<Rightarrow> Inr (PyDict [(''day'', d), (''value'', v)])))
                xs),
           instances))"

text \<open>
  \<^verbatim>\<open>return [cls.model(**d) for d in data]\<close>. Like \<open>serialize\<close>, it assigns to
  nothing.
\<close>

definition ObservationSerializer_deserialize ::
  "serializer \<Rightarrow> pyval \<Rightarrow> (error + pyval) \<times> pyval" where
  "ObservationSerializer_deserialize cls data =
     (case py_iter data of
        Inl e \<Rightarrow> (Inl e, data)
      | Inr ds \<Rightarrow> (map_sum id PyList (traverse (cls_model cls) ds), data))"

subsection \<open>\<^verbatim>\<open>PatientSerializer\<close>\<close>

text \<open>
  \<^verbatim>\<open>
  return [{
      'name': instance.name,
      'observations': ObservationSerializer.serialize(instance.observations),
  } for instance in instances]
  \<close>
\<close>

definition PatientSerializer_serialize ::
  "serializer \<Rightarrow> pyval \<Rightarrow> (error + pyval) \<times> pyval" where
  "PatientSerializer_serialize cls instances =
     (case py_iter instances of
        Inl e \<Rightarrow> (Inl e, instances)
      | Inr xs \<Rightarrow>
          (map_sum id PyList
             (traverse
                (\<lambda>instance.
                   case py_getattr instance ''name'' of
                     Inl e \<Rightarrow> Inl e
                   | Inr n \<Rightarrow>
                       (case py_getattr instance ''observations'' of
                          Inl e \<Rightarrow> Inl e
                        | Inr os \<Rightarrow>
                            (case fst (ObservationSerializer_serialize ObservationSerializer os) of
                               Inl e \<Rightarrow> Inl e
                             | Inr sos \<Rightarrow>
                                 Inr (PyDict [(''name'', n), (''observations'', sos)]))))
                xs),
           instances))"

text \<open>
  \<^verbatim>\<open>
  instances = []
  for item in data:
      item['observations'] = ObservationSerializer.deserialize(item.pop('observations'))
      instances.append(cls.model(**item))
  return instances
  \<close>
  The loop body, \<open>deserialize_item\<close>, changes \<open>item\<close>, an element of the caller's
  \<open>data\<close>: the right-hand side pops the key first, then the assignment stores the
  rebuilt list, then the model is built from the changed item. It returns the instance
  (or the exception) and the item as it is then. The loop returns the elements of
  \<open>data\<close> as they are when it ends, also when it ends in an exception. Each element of
  \<open>data\<close> is taken to be an object of its own, as \<^verbatim>\<open>json.load\<close> and \<open>serialize\<close>
  build them.
\<close>

definition deserialize_item :: "serializer \<Rightarrow> pyval \<Rightarrow> (error + pyval) \<times> pyval" where
  "deserialize_item cls item =
     (case py_pop item ''observations'' of
        Inl e \<Rightarrow> (Inl e, item)
      | Inr (v, item1) \<Rightarrow>
          (case fst (ObservationSerializer_deserialize ObservationSerializer v) of
             Inl e \<Rightarrow> (Inl e, item1)
           | Inr os \<Rightarrow>
               (case py_setitem item1 ''observations'' os of
                  Inl e \<Rightarrow> (Inl e, item1)
                | Inr item2 \<Rightarrow> (cls_model cls item2, item2))))"

fun deserialize_loop ::
  "serializer \<Rightarrow> pyval list \<Rightarrow> pyval list \<Rightarrow> (error + pyval list) \<times> pyval list" where
  "deserialize_loop cls [] instances = (Inr instances, [])"
| "deserialize_loop cls (item # rest) instances =
     (case deserialize_item cls item of
        (Inl e, item') \<Rightarrow> (Inl e, item' # rest)
      | (Inr p, item') \<Rightarrow>
          (case deserialize_loop cls rest (instances @ [p]) of
             (r, rest') \<Rightarrow> (r, item' # rest')))"

definition PatientSerializer_deserialize ::
  "serializer \<Rightarrow> pyval \<Rightarrow> (error + pyval) \<times> pyval" where
  "PatientSerializer_deserialize cls data =
     (case data of
        PyList items \<Rightarrow>
          (case deserialize_loop cls items [] of
             (r, items') \<Rightarrow> (map_sum id PyList r, PyList items'))
      | _ \<Rightarrow>
          (case py_iter data of
             Inl e \<Rightarrow> (Inl e, data)
           | Inr items \<Rightarrow> (map_sum id PyList (fst (deserialize_loop cls items [])), data)))"

subsection \<open>Calls\<close>

definition call_serialize :: "serializer \<Rightarrow> pyval \<Rightarrow> (error + pyval) \<times> pyval" where
  "call_serialize c instances =
     (case resolve c M_serialize of
        Some Serializer \<Rightarrow> Serializer_serialize c instances
      | Some ObservationSerializer \<Rightarrow> ObservationSerializer_serialize c instances
      | Some PatientSerializer \<Rightarrow> PatientSerializer_serialize c instances
      | _ \<Rightarrow> (Inl AttributeError, instances))"

definition call_deserialize :: "serializer \<Rightarrow> pyval \<Rightarrow> (error + pyval) \<times> pyval" where
  "call_deserialize c data =
     (case resolve c M_deserialize of
        Some Serializer \<Rightarrow> Serializer_deserialize c data
      | Some ObservationSerializer \<Rightarrow> ObservationSerializer_deserialize c data
      | Some PatientSerializer \<Rightarrow> PatientSerializer_deserialize c data
      | _ \<Rightarrow> (Inl AttributeError, data))"

subsection \<open>\<^verbatim>\<open>PatientJSONSerializer\<close>\<close>

text \<open>
  \<^verbatim>\<open>
  with open(path, 'w') as jsonfile:
      json.dump(cls.serialize(instances), jsonfile)
  \<close>
  The file is opened, and so emptied, before \<open>cls.serialize\<close> runs.
\<close>

definition PatientJSONSerializer_save ::
  "serializer \<Rightarrow> pyval \<Rightarrow> string \<Rightarrow> filesystem \<Rightarrow> (error + unit) \<times> filesystem" where
  "PatientJSONSerializer_save cls instances path fs =
     (case open_w fs path of
        Inl e \<Rightarrow> (Inl e, fs)
      | Inr fs1 \<Rightarrow>
          (case fst (call_serialize cls instances) of
             Inl e \<Rightarrow> (Inl e, fs1)
           | Inr data \<Rightarrow> json_dump data path fs1))"

text \<open>
  \<^verbatim>\<open>
  with open(path) as jsonfile:
      data = json.load(jsonfile)
  return cls.deserialize(data)
  \<close>
  \<open>data\<close> is local to the call, so what \<open>deserialize\<close> does to it is dropped.
\<close>

definition PatientJSONSerializer_load ::
  "serializer \<Rightarrow> string \<Rightarrow> filesystem \<Rightarrow> error + pyval" where
  "PatientJSONSerializer_load cls path fs =
     (case open_r fs path of
        Inl e \<Rightarrow> Inl e
      | Inr t \<Rightarrow>
          (case json_load t of
             Inl e \<Rightarrow> Inl e
           | Inr data \<Rightarrow> fst (call_deserialize cls data)))"

definition call_save ::
  "serializer \<Rightarrow> pyval \<Rightarrow> string \<Rightarrow> filesystem \<Rightarrow> (error + unit) \<times> filesystem" where
  "call_save c instances path fs =
     (case resolve c M_save of
        Some Serializer \<Rightarrow> Serializer_save c instances path fs
      | Some PatientJSONSerializer \<Rightarrow> PatientJSONSerializer_save c instances path fs
      | _ \<Rightarrow> (Inl AttributeError, fs))"

definition call_load :: "serializer \<Rightarrow> string \<Rightarrow> filesystem \<Rightarrow> error + pyval" where
  "call_load c path fs =
     (case resolve c M_load of
        Some Serializer \<Rightarrow> Serializer_load c path fs
      | Some PatientJSONSerializer \<Rightarrow> PatientJSONSerializer_load c path fs
      | _ \<Rightarrow> Inl AttributeError)"

section \<open>The data model and the file format of the specification\<close>

text \<open>
  The specification's records: an observation has an integer day, not negative, and a
  number as value; a patient has a non-empty string as name and a sequence of
  observations.
\<close>

fun is_number :: "pyval \<Rightarrow> bool" where
  "is_number (PyInt i) = True"
| "is_number (PyFloat x) = True"
| "is_number v = False"

fun is_observation :: "pyval \<Rightarrow> bool" where
  "is_observation (Observation (PyInt d) v) = (0 \<le> d \<and> is_number v)"
| "is_observation v = False"

fun is_patient :: "pyval \<Rightarrow> bool" where
  "is_patient (Patient (PyStr n) (PyList os)) = (n \<noteq> [] \<and> list_all is_observation os)"
| "is_patient v = False"

text \<open>
  Field-wise equality, as the lesson's test checks it with \<^verbatim>\<open>==\<close>: the names are equal,
  the observation sequences have the same length, and day and value are equal position
  by position. \<open>py_eq\<close> is \<^verbatim>\<open>==\<close> on the values a field of a record holds: numbers are
  compared by their value, whether \<^verbatim>\<open>bool\<close>, \<^verbatim>\<open>int\<close> or \<^verbatim>\<open>float\<close>, and \<^verbatim>\<open>nan\<close> is equal
  to nothing, not even to itself. Lists, dictionaries and instances are not compared
  with it.
\<close>

fun number_value :: "pyval \<Rightarrow> pyfloat option" where
  "number_value (PyBool b) = Some (Finite (if b then 1 else 0))"
| "number_value (PyInt i) = Some (Finite (of_int i))"
| "number_value (PyFloat x) = Some x"
| "number_value v = None"

fun float_eq :: "pyfloat \<Rightarrow> pyfloat \<Rightarrow> bool" where
  "float_eq NaN y = False"
| "float_eq x NaN = False"
| "float_eq x y = (x = y)"

definition py_eq :: "pyval \<Rightarrow> pyval \<Rightarrow> bool" where
  "py_eq a b =
     (case (number_value a, number_value b) of
        (Some x, Some y) \<Rightarrow> float_eq x y
      | (None, None) \<Rightarrow>
          (case (a, b) of
             (PyStr s, PyStr t) \<Rightarrow> s = t
           | (PyNone, PyNone) \<Rightarrow> True
           | _ \<Rightarrow> False)
      | _ \<Rightarrow> False)"

fun observation_equal :: "pyval \<Rightarrow> pyval \<Rightarrow> bool" where
  "observation_equal (Observation d v) (Observation d' v') = (py_eq d d' \<and> py_eq v v')"
| "observation_equal a b = False"

fun patient_equal :: "pyval \<Rightarrow> pyval \<Rightarrow> bool" where
  "patient_equal (Patient n (PyList os)) (Patient n' (PyList os')) =
     (py_eq n n' \<and> list_all2 observation_equal os os')"
| "patient_equal a b = False"

fun batch_equal :: "pyval \<Rightarrow> pyval \<Rightarrow> bool" where
  "batch_equal (PyList ps) (PyList qs) = list_all2 patient_equal ps qs"
| "batch_equal a b = False"

text \<open>
  Conditions on the days and values of a patient: no value is \<^verbatim>\<open>nan\<close>; every integer
  has at most 4300 digits; every float is finite.
\<close>

fun not_nan :: "pyval \<Rightarrow> bool" where
  "not_nan (PyFloat NaN) = False"
| "not_nan v = True"

fun printable :: "pyval \<Rightarrow> bool" where
  "printable (PyInt i) = int_str_ok i"
| "printable v = True"

fun finite_value :: "pyval \<Rightarrow> bool" where
  "finite_value (PyFloat (Finite x)) = True"
| "finite_value (PyFloat x) = False"
| "finite_value v = True"

fun observation_values :: "(pyval \<Rightarrow> bool) \<Rightarrow> pyval \<Rightarrow> bool" where
  "observation_values P (Observation d v) = (P d \<and> P v)"
| "observation_values P v = False"

fun all_values :: "(pyval \<Rightarrow> bool) \<Rightarrow> pyval \<Rightarrow> bool" where
  "all_values P (Patient n (PyList os)) = list_all (observation_values P) os"
| "all_values P v = False"

text \<open>
  An instance of \<^verbatim>\<open>models.Observation\<close>, whatever its fields hold, and an instance of
  \<^verbatim>\<open>models.Patient\<close> whose observations are a list of such instances; and the generic
  records the specification has for them, \<^verbatim>\<open>{day: obs.day, value: obs.value}\<close> and
  \<^verbatim>\<open>{name: patient.name, observations: [...]}\<close>.
\<close>

fun Observation_instance :: "pyval \<Rightarrow> bool" where
  "Observation_instance (Observation d v) = True"
| "Observation_instance v = False"

fun Patient_instance :: "pyval \<Rightarrow> bool" where
  "Patient_instance (Patient n (PyList os)) = list_all Observation_instance os"
| "Patient_instance v = False"

fun observation_record :: "pyval \<Rightarrow> pyval" where
  "observation_record (Observation d v) = PyDict [(''day'', d), (''value'', v)]"
| "observation_record v = PyNone"

fun patient_record :: "pyval \<Rightarrow> pyval" where
  "patient_record (Patient n (PyList os)) =
     PyDict [(''name'', n), (''observations'', PyList (map observation_record os))]"
| "patient_record v = PyNone"




fun is_mapping :: "pyval \<Rightarrow> bool" where
  "is_mapping (PyDict kw) = True"
| "is_mapping v = False"

fun is_sequence_of_mappings :: "pyval \<Rightarrow> bool" where
  "is_sequence_of_mappings (PyList items) = list_all is_mapping items"
| "is_sequence_of_mappings v = False"






text \<open>
  The specification's file format: an array with one object per patient,
  \<^verbatim>\<open>{"name": <string>, "observations": [{"day": <integer>, "value": <number>}, ...]}\<close>,
  and nothing else. A document is valid JSON when none of the three tokens for the
  floats that are not finite occurs in it. \<open>patient_json\<close> is the object that the
  encoder writes for the generic record of a patient.
\<close>

fun is_json_number :: "json \<Rightarrow> bool" where
  "is_json_number (JInt i) = True"
| "is_json_number (JFloat x) = True"
| "is_json_number (JLarge negative) = True"
| "is_json_number j = False"

fun valid_json :: "json \<Rightarrow> bool" where
  "valid_json JNaN = False"
| "valid_json JInfinity = False"
| "valid_json JNegInfinity = False"
| "valid_json (JArray xs) = list_all valid_json xs"
| "valid_json (JObject kw) = list_all (\<lambda>(k, v). valid_json v) kw"
| "valid_json j = True"

fun is_observation_object :: "json \<Rightarrow> bool" where
  "is_observation_object (JObject [(k1, JInt d), (k2, v)]) =
     (k1 = ''day'' \<and> k2 = ''value'' \<and> is_json_number v)"
| "is_observation_object j = False"

fun is_patient_object :: "json \<Rightarrow> bool" where
  "is_patient_object (JObject [(k1, JString n), (k2, JArray os)]) =
     (k1 = ''name'' \<and> k2 = ''observations'' \<and> list_all is_observation_object os)"
| "is_patient_object j = False"

fun on_disk_format :: "json \<Rightarrow> bool" where
  "on_disk_format (JArray ps) = list_all is_patient_object ps"
| "on_disk_format j = False"

fun number_json :: "pyval \<Rightarrow> json" where
  "number_json (PyInt i) = JInt i"
| "number_json (PyFloat x) = float_to_json x"
| "number_json v = JNull"

fun observation_json :: "pyval \<Rightarrow> json" where
  "observation_json (Observation (PyInt d) v) =
     JObject [(''day'', JInt d), (''value'', number_json v)]"
| "observation_json v = JNull"

fun patient_json :: "pyval \<Rightarrow> json" where
  "patient_json (Patient (PyStr n) (PyList os)) =
     JObject [(''name'', JString n), (''observations'', JArray (map observation_json os))]"
| "patient_json v = JNull"

text \<open>
  The example scenario of the specification: Alice with the values 3 and 4 on days 0
  and 1, Bob with the value 10 on day 0, and a file system with no file in it.
\<close>

definition Alice :: pyval where
  "Alice = Patient (PyStr ''Alice'')
             (PyList [Observation (PyInt 0) (PyInt 3), Observation (PyInt 1) (PyInt 4)])"

definition Bob :: pyval where
  "Bob = Patient (PyStr ''Bob'') (PyList [Observation (PyInt 0) (PyInt 10)])"

definition no_files :: filesystem where
  "no_files = \<lparr>files = Map.empty, read_only = {}\<rparr>"

text \<open>
  Further examples. Carol is a patient with an observation whose value is itself an
  observation and no number, so a value the JSON encoder rejects. Dora, Erin and Finn
  are patient records by the data model: Dora has a value of 4301 digits, Erin the
  value \<^verbatim>\<open>nan\<close> and Finn the value \<^verbatim>\<open>inf\<close>.
\<close>

definition Carol :: pyval where
  "Carol = Patient (PyStr ''Carol'')
             (PyList [Observation (PyInt 0) (Observation (PyInt 0) (PyInt 1))])"

definition Dora :: pyval where
  "Dora = Patient (PyStr ''Dora'') (PyList [Observation (PyInt 0) (PyInt int_str_limit)])"

definition Erin :: pyval where
  "Erin = Patient (PyStr ''Erin'') (PyList [Observation (PyInt 0) (PyFloat NaN)])"

definition Finn :: pyval where
  "Finn = Patient (PyStr ''Finn'') (PyList [Observation (PyInt 0) (PyFloat PosInf)])"

text \<open>
  Generic records: Bob's; records with a missing key; records whose observations are a
  number, an empty object and an empty string; and a record with exactly the keys of
  the data model and values of other types throughout.
\<close>

definition Bob_record :: pyval where
  "Bob_record =
     PyDict [(''name'', PyStr ''Bob''),
             (''observations'', PyList [PyDict [(''day'', PyInt 0), (''value'', PyInt 10)]])]"







text \<open>
  A file system with a batch saved earlier, a text that is no JSON, two JSON objects,
  Erin's batch as the encoder writes it (with the token \<^verbatim>\<open>NaN\<close>), an array with an
  integer of 4301 digits, a text nested too deep, a file that is no text, and a path
  that cannot be opened for writing.
\<close>

definition Erin_json :: json where
  "Erin_json =
     JArray [JObject [(''name'', JString ''Erin''),
                      (''observations'',
                       JArray [JObject [(''day'', JInt 0), (''value'', JNaN)]])]]"

definition some_files :: filesystem where
  "some_files =
     \<lparr>files = [''patients.json'' \<mapsto> JSONText (JArray []),
               ''notes.txt'' \<mapsto> InvalidText,
               ''object.json'' \<mapsto> JSONText (JObject [(''name'', JString ''Alice'')]),
               ''empty.json'' \<mapsto> JSONText (JObject []),
               ''erin.json'' \<mapsto> JSONText Erin_json,
               ''digits.json'' \<mapsto> JSONText (JArray [JInt int_str_limit]),
               ''deep.json'' \<mapsto> DeepText,
               ''image.png'' \<mapsto> NoText],
      read_only = {''locked.json''}\<rparr>"

section \<open>Method resolution\<close>

lemma resolve_Serializer [simp]: "resolve Serializer m = Some Serializer"
  by (simp add: resolve_def)

lemma resolve_ObservationSerializer [simp]:
  "resolve ObservationSerializer M_serialize = Some ObservationSerializer"
  "resolve ObservationSerializer M_deserialize = Some ObservationSerializer"
  "resolve ObservationSerializer M_save = Some Serializer"
  "resolve ObservationSerializer M_load = Some Serializer"
  by (simp_all add: resolve_def)

lemma resolve_PatientSerializer [simp]:
  "resolve PatientSerializer M_serialize = Some PatientSerializer"
  "resolve PatientSerializer M_deserialize = Some PatientSerializer"
  "resolve PatientSerializer M_save = Some Serializer"
  "resolve PatientSerializer M_load = Some Serializer"
  by (simp_all add: resolve_def)

lemma resolve_PatientJSONSerializer [simp]:
  "resolve PatientJSONSerializer M_serialize = Some PatientSerializer"
  "resolve PatientJSONSerializer M_deserialize = Some PatientSerializer"
  "resolve PatientJSONSerializer M_save = Some PatientJSONSerializer"
  "resolve PatientJSONSerializer M_load = Some PatientJSONSerializer"
  by (simp_all add: resolve_def)

section \<open>The abstract contract\<close>

text \<open>
  Claim C6. Each of the four operations \<open>serialize\<close>, \<open>deserialize\<close>, \<open>save\<close> and
  \<open>load\<close>, called on the base class \<open>Serializer\<close> itself, raises
  \<^verbatim>\<open>NotImplementedError\<close>, whatever the batch, the path and the file system are; the
  batch and the files are left as they were.
\<close>

theorem Serializer_not_implemented:
  "call_serialize Serializer instances = (Inl NotImplementedError, instances) \<and>
   call_deserialize Serializer data = (Inl NotImplementedError, data) \<and>
   call_save Serializer instances path fs = (Inl NotImplementedError, fs) \<and>
   call_load Serializer path fs = Inl NotImplementedError"
  by (simp add: call_serialize_def call_deserialize_def call_save_def call_load_def
      Serializer_serialize_def Serializer_deserialize_def Serializer_save_def
      Serializer_load_def)

text \<open>
  Claim C9. \<open>ObservationSerializer\<close> defines \<open>serialize\<close> and \<open>deserialize\<close> only, so
  \<open>save\<close> and \<open>load\<close> called on it resolve to the bodies of the base class and raise
  \<^verbatim>\<open>NotImplementedError\<close> for every input.
\<close>

theorem ObservationSerializer_save_load_not_implemented:
  "class_defines ObservationSerializer m = (m = M_serialize \<or> m = M_deserialize) \<and>
   resolve ObservationSerializer M_save = Some Serializer \<and>
   resolve ObservationSerializer M_load = Some Serializer \<and>
   call_save ObservationSerializer instances path fs = (Inl NotImplementedError, fs) \<and>
   call_load ObservationSerializer path fs = Inl NotImplementedError"
  by (simp add: call_save_def call_load_def Serializer_save_def Serializer_load_def)

section \<open>The empty batch\<close>

text \<open>
  Claim C10. On the empty batch both record serializers return the empty sequence and
  raise nothing: \<open>serialize([])\<close> is \<open>[]\<close> and \<open>deserialize([])\<close> is \<open>[]\<close>, for
  \<open>PatientSerializer\<close> and for \<open>ObservationSerializer\<close>, so each is the inverse of the
  other there.
\<close>

theorem empty_batch:
  "fst (call_serialize PatientSerializer (PyList [])) = Inr (PyList []) \<and>
   fst (call_serialize ObservationSerializer (PyList [])) = Inr (PyList []) \<and>
   fst (call_deserialize PatientSerializer (PyList [])) = Inr (PyList []) \<and>
   fst (call_deserialize ObservationSerializer (PyList [])) = Inr (PyList [])"
  by (simp add: call_serialize_def call_deserialize_def
      PatientSerializer_serialize_def ObservationSerializer_serialize_def
      PatientSerializer_deserialize_def ObservationSerializer_deserialize_def)

section \<open>What the serializers do on records\<close>

lemma traverse_map:
  "(\<And>x. x \<in> set xs \<Longrightarrow> f x = Inr (g x)) \<Longrightarrow> traverse f xs = Inr (map g xs)"
  by (induction xs) simp_all

lemma Observation_instance_cases:
  "Observation_instance x \<Longrightarrow> \<exists>d v. x = Observation d v"
  by (cases x) simp_all

lemma Patient_instance_cases:
  "Patient_instance p \<Longrightarrow> \<exists>n os. p = Patient n (PyList os) \<and> list_all Observation_instance os"
  by (induction p rule: Patient_instance.induct) simp_all

lemma ObservationSerializer_serialize_instances:
  assumes "list_all Observation_instance os"
  shows "ObservationSerializer_serialize cls (PyList os) =
           (Inr (PyList (map observation_record os)), PyList os)"
proof -
  have "traverse
          (\<lambda>instance.
             case py_getattr instance ''day'' of
               Inl e \<Rightarrow> Inl e
             | Inr d \<Rightarrow>
                 (case py_getattr instance ''value'' of
                    Inl e \<Rightarrow> Inl e
                  | Inr v \<Rightarrow> Inr (PyDict [(''day'', d), (''value'', v)])))
          os = Inr (map observation_record os)"
  proof (rule traverse_map)
    fix x assume "x \<in> set os"
    with assms have "Observation_instance x" by (simp add: list_all_iff)
    then obtain d v where "x = Observation d v"
      using Observation_instance_cases by blast
    then show "(case py_getattr x ''day'' of
               Inl e \<Rightarrow> Inl e
             | Inr d \<Rightarrow>
                 (case py_getattr x ''value'' of
                    Inl e \<Rightarrow> Inl e
                  | Inr v \<Rightarrow> Inr (PyDict [(''day'', d), (''value'', v)]))) = Inr (observation_record x)"
      by simp
  qed
  then show ?thesis by (simp add: ObservationSerializer_serialize_def)
qed

lemma PatientSerializer_serialize_instances:
  assumes "list_all Patient_instance ps"
  shows "PatientSerializer_serialize cls (PyList ps) =
           (Inr (PyList (map patient_record ps)), PyList ps)"
proof -
  have "traverse
          (\<lambda>instance.
             case py_getattr instance ''name'' of
               Inl e \<Rightarrow> Inl e
             | Inr n \<Rightarrow>
                 (case py_getattr instance ''observations'' of
                    Inl e \<Rightarrow> Inl e
                  | Inr os \<Rightarrow>
                      (case fst (ObservationSerializer_serialize ObservationSerializer os) of
                         Inl e \<Rightarrow> Inl e
                       | Inr sos \<Rightarrow>
                           Inr (PyDict [(''name'', n), (''observations'', sos)]))))
          ps = Inr (map patient_record ps)"
  proof (rule traverse_map)
    fix x assume "x \<in> set ps"
    with assms have "Patient_instance x" by (simp add: list_all_iff)
    then obtain n os where x: "x = Patient n (PyList os)" and os: "list_all Observation_instance os"
      using Patient_instance_cases by blast
    show "(case py_getattr x ''name'' of
               Inl e \<Rightarrow> Inl e
             | Inr n \<Rightarrow>
                 (case py_getattr x ''observations'' of
                    Inl e \<Rightarrow> Inl e
                  | Inr os \<Rightarrow>
                      (case fst (ObservationSerializer_serialize ObservationSerializer os) of
                         Inl e \<Rightarrow> Inl e
                       | Inr sos \<Rightarrow>
                           Inr (PyDict [(''name'', n), (''observations'', sos)])))) = Inr (patient_record x)"
      by (simp add: x ObservationSerializer_serialize_instances [OF os])
  qed
  then show ?thesis by (simp add: PatientSerializer_serialize_def)
qed

lemma cls_model_observation_record:
  "cls_model ObservationSerializer (PyDict [(''day'', d), (''value'', v)]) = Inr (Observation d v)"
  by (simp add: cls_model_def construct_def)

lemma ObservationSerializer_deserialize_records:
  assumes "list_all Observation_instance os"
  shows "ObservationSerializer_deserialize ObservationSerializer (PyList (map observation_record os)) =
           (Inr (PyList os), PyList (map observation_record os))"
proof -
  have "traverse (cls_model ObservationSerializer) (map observation_record os) = Inr os"
    using assms
  proof (induction os)
    case Nil
    then show ?case by simp
  next
    case (Cons x xs)
    from Cons.prems have "Observation_instance x" by simp
    then obtain d v where "x = Observation d v"
      using Observation_instance_cases by blast
    with Cons show ?case by (simp add: cls_model_observation_record)
  qed
  then show ?thesis by (simp add: ObservationSerializer_deserialize_def)
qed

lemma deserialize_item_record:
  assumes "model_attr cls = Some Patient_model" and "list_all Observation_instance os"
  shows "deserialize_item cls (patient_record (Patient n (PyList os))) =
           (Inr (Patient n (PyList os)),
            PyDict [(''name'', n), (''observations'', PyList os)])"
proof -
  have "cls_model cls (PyDict [(''name'', n), (''observations'', PyList os)]) =
          Inr (Patient n (PyList os))"
    by (simp add: cls_model_def construct_def assms(1))
  then show ?thesis
    by (simp add: deserialize_item_def ObservationSerializer_deserialize_records [OF assms(2)])
qed

lemma deserialize_loop_records:
  assumes "model_attr cls = Some Patient_model" and "list_all Patient_instance ps"
  shows "fst (deserialize_loop cls (map patient_record ps) acc) = Inr (acc @ ps)"
  using assms(2)
proof (induction ps arbitrary: acc)
  case Nil
  then show ?case by simp
next
  case (Cons p ps)
  from Cons.prems have "Patient_instance p" and rest: "list_all Patient_instance ps"
    by simp_all
  then obtain n os where p: "p = Patient n (PyList os)" and os: "list_all Observation_instance os"
    using Patient_instance_cases by blast
  show ?case
    using Cons.IH [OF rest, of "acc @ [p]"]
    by (simp add: p deserialize_item_record [OF assms(1) os, simplified] case_prod_beta)
qed

lemma int_str_limit_large: "1000 \<le> int_str_limit"
proof -
  have "(10::int) ^ 3 \<le> 10 ^ 4300"
    by (rule power_increasing) simp_all
  moreover have "(10::int) ^ 3 = 1000" by simp
  ultimately show ?thesis unfolding int_str_limit_def by (simp only:)
qed

lemma int_str_ok_small: "\<bar>i\<bar> < 1000 \<Longrightarrow> int_str_ok i"
  using int_str_limit_large by (simp add: int_str_ok_def)

lemma int_str_limit_not_ok: "\<not> int_str_ok int_str_limit"
  using int_str_limit_large by (simp add: int_str_ok_def)

lemma sequence_results_map:
  "(\<And>x. x \<in> set xs \<Longrightarrow> f x = Inr (g x)) \<Longrightarrow>
     sequence_results (map f xs) = Inr (map g xs)"
  by (induction xs) simp_all

lemma is_observation_cases:
  "is_observation x \<Longrightarrow> \<exists>d v. x = Observation (PyInt d) v \<and> 0 \<le> d \<and> is_number v"
  by (induction x rule: is_observation.induct) simp_all

lemma is_patient_cases:
  "is_patient p \<Longrightarrow>
     \<exists>n os. p = Patient (PyStr n) (PyList os) \<and> n \<noteq> [] \<and> list_all is_observation os"
  by (induction p rule: is_patient.induct) simp_all

lemma is_number_cases: "is_number v \<Longrightarrow> (\<exists>i. v = PyInt i) \<or> (\<exists>x. v = PyFloat x)"
  by (cases v) simp_all

lemma is_observation_instance: "is_observation x \<Longrightarrow> Observation_instance x"
  using is_observation_cases by fastforce

lemma is_patient_instance: "is_patient p \<Longrightarrow> Patient_instance p"
proof -
  assume "is_patient p"
  then obtain n os where p: "p = Patient (PyStr n) (PyList os)" and os: "list_all is_observation os"
    using is_patient_cases by blast
  from os have "list_all Observation_instance os"
    by (simp add: list_all_iff is_observation_instance)
  with p show ?thesis by simp
qed

lemma from_json_float: "from_json (float_to_json x) = Inr (PyFloat x)"
  by (cases x) simp_all

lemma to_json_number:
  "is_number v \<Longrightarrow> printable v \<Longrightarrow> to_json v = Inr (number_json v)"
  using is_number_cases [of v] by auto

lemma from_json_number:
  "is_number v \<Longrightarrow> printable v \<Longrightarrow> from_json (number_json v) = Inr v"
  using is_number_cases [of v] by (auto simp: from_json_float)

lemma is_json_number_finite:
  "is_number v \<Longrightarrow> finite_value v \<Longrightarrow> is_json_number (number_json v)"
proof -
  assume "is_number v" and f: "finite_value v"
  then consider i where "v = PyInt i" | x where "v = PyFloat x"
    using is_number_cases by blast
  then show ?thesis
  proof cases
    case 1
    then show ?thesis by simp
  next
    case 2
    with f show ?thesis by (cases x) simp_all
  qed
qed

lemma to_json_observation_record:
  "is_observation x \<Longrightarrow> observation_values printable x \<Longrightarrow>
     to_json (observation_record x) = Inr (observation_json x)"
  using is_observation_cases [of x] by (auto simp: to_json_number)

lemma from_json_observation:
  "is_observation x \<Longrightarrow> observation_values printable x \<Longrightarrow>
     from_json (observation_json x) = Inr (observation_record x)"
  using is_observation_cases [of x] by (auto simp: from_json_number)

lemma is_observation_object:
  "is_observation x \<Longrightarrow> observation_values finite_value x \<Longrightarrow>
     is_observation_object (observation_json x)"
  using is_observation_cases [of x] by (auto simp: is_json_number_finite)

lemma to_json_patient_record:
  assumes "is_patient p" and "all_values printable p"
  shows "to_json (patient_record p) = Inr (patient_json p)"
proof -
  from assms(1) obtain n os where p: "p = Patient (PyStr n) (PyList os)"
    and os: "list_all is_observation os"
    using is_patient_cases by blast
  from assms(2) p have pr: "list_all (observation_values printable) os" by simp
  have "sequence_results (map to_json (map observation_record os)) =
          Inr (map observation_json os)"
    unfolding map_map
    by (rule sequence_results_map)
      (use os pr in \<open>simp add: list_all_iff to_json_observation_record\<close>)
  then show ?thesis by (simp add: p)
qed

lemma from_json_patient:
  assumes "is_patient p" and "all_values printable p"
  shows "from_json (patient_json p) = Inr (patient_record p)"
proof -
  from assms(1) obtain n os where p: "p = Patient (PyStr n) (PyList os)"
    and os: "list_all is_observation os"
    using is_patient_cases by blast
  from assms(2) p have pr: "list_all (observation_values printable) os" by simp
  have "sequence_results (map from_json (map observation_json os)) =
          Inr (map observation_record os)"
    unfolding map_map
    by (rule sequence_results_map)
      (use os pr in \<open>simp add: list_all_iff from_json_observation\<close>)
  then show ?thesis by (simp add: p)
qed

lemma is_patient_object:
  assumes "is_patient p" and "all_values finite_value p"
  shows "is_patient_object (patient_json p)"
proof -
  from assms(1) obtain n os where p: "p = Patient (PyStr n) (PyList os)"
    and os: "list_all is_observation os"
    using is_patient_cases by blast
  from assms(2) p have "list_all (observation_values finite_value) os" by simp
  with os have "list_all is_observation_object (map observation_json os)"
    by (simp add: list_all_iff is_observation_object)
  then show ?thesis by (simp add: p)
qed

lemma to_json_patient_records:
  assumes "list_all is_patient ps" and "list_all (all_values printable) ps"
  shows "to_json (PyList (map patient_record ps)) = Inr (JArray (map patient_json ps))"
proof -
  have "sequence_results (map to_json (map patient_record ps)) = Inr (map patient_json ps)"
    unfolding map_map
    by (rule sequence_results_map)
      (use assms in \<open>simp add: list_all_iff to_json_patient_record\<close>)
  then show ?thesis by simp
qed

lemma from_json_patients:
  assumes "list_all is_patient ps" and "list_all (all_values printable) ps"
  shows "from_json (JArray (map patient_json ps)) = Inr (PyList (map patient_record ps))"
proof -
  have "sequence_results (map from_json (map patient_json ps)) = Inr (map patient_record ps)"
    unfolding map_map
    by (rule sequence_results_map)
      (use assms in \<open>simp add: list_all_iff from_json_patient\<close>)
  then show ?thesis by simp
qed

lemma py_eq_number: "is_number v \<Longrightarrow> not_nan v \<Longrightarrow> py_eq v v"
proof -
  assume "is_number v" and n: "not_nan v"
  then consider i where "v = PyInt i" | x where "v = PyFloat x"
    using is_number_cases by blast
  then show ?thesis
  proof cases
    case 1
    then show ?thesis by (simp add: py_eq_def)
  next
    case 2
    with n show ?thesis by (cases x) (simp_all add: py_eq_def)
  qed
qed

lemma py_eq_int: "py_eq (PyInt i) (PyInt i)"
  by (simp add: py_eq_def)

lemma py_eq_str: "py_eq (PyStr s) (PyStr s)"
  by (simp add: py_eq_def)

lemma observation_equal_refl:
  "is_observation x \<Longrightarrow> observation_values not_nan x \<Longrightarrow> observation_equal x x"
  using is_observation_cases [of x] by (auto simp: py_eq_number py_eq_int)

lemma patient_equal_refl:
  assumes "is_patient p" and "all_values not_nan p"
  shows "patient_equal p p"
proof -
  from assms(1) obtain n os where p: "p = Patient (PyStr n) (PyList os)"
    and os: "list_all is_observation os"
    using is_patient_cases by blast
  from assms(2) p have "list_all (observation_values not_nan) os" by simp
  with os have "list_all2 observation_equal os os"
    by (simp add: list_all2_same list_all_iff observation_equal_refl)
  then show ?thesis by (simp add: p py_eq_str)
qed

lemma batch_equal_refl:
  assumes "list_all is_patient ps" and "list_all (all_values not_nan) ps"
  shows "batch_equal (PyList ps) (PyList ps)"
  using assms by (simp add: list_all2_same list_all_iff patient_equal_refl)

section \<open>The round trip\<close>

lemma save_patients:
  assumes "list_all is_patient ps" and "list_all (all_values printable) ps"
    and "path \<notin> read_only fs"
  shows "call_save PatientJSONSerializer (PyList ps) path fs =
           (Inr (), write_text fs path (JSONText (JArray (map patient_json ps))))"
proof -
  from assms(1) have inst: "list_all Patient_instance ps"
    by (simp add: list_all_iff is_patient_instance)
  have ser: "fst (call_serialize PatientJSONSerializer (PyList ps)) =
               Inr (PyList (map patient_record ps))"
    by (simp add: call_serialize_def PatientSerializer_serialize_instances [OF inst])
  have "json_dump (PyList (map patient_record ps)) path (write_text fs path EmptyText) =
          (Inr (), write_text fs path (JSONText (JArray (map patient_json ps))))"
    unfolding json_dump_def to_json_patient_records [OF assms(1,2)]
    by (simp add: write_text_def)
  with assms(3) ser show ?thesis
    by (simp add: call_save_def PatientJSONSerializer_save_def open_w_def)
qed

lemma load_patients:
  assumes "list_all is_patient ps" and "list_all (all_values printable) ps"
    and "files fs path = Some (JSONText (JArray (map patient_json ps)))"
  shows "call_load PatientJSONSerializer path fs = Inr (PyList ps)"
proof -
  from assms(1) have inst: "list_all Patient_instance ps"
    by (simp add: list_all_iff is_patient_instance)
  have "fst (call_deserialize PatientJSONSerializer (PyList (map patient_record ps))) =
          Inr (PyList ps)"
    using deserialize_loop_records [OF _ inst, of PatientJSONSerializer "[]"]
    by (simp add: call_deserialize_def PatientSerializer_deserialize_def case_prod_beta)
  then show ?thesis
    unfolding call_load_def PatientJSONSerializer_load_def open_r_def
    by (simp add: assms(3) from_json_patients [OF assms(1,2)] del: from_json.simps)
qed

lemma examples_printable [simp]:
  "int_str_ok 0" "int_str_ok 1" "int_str_ok 3" "int_str_ok 4" "int_str_ok 10"
  by (simp_all add: int_str_ok_small)

text \<open>
  Claim C1, as the code has it. For every sequence of patient records (non-empty names,
  observation sequences of any length) in which no value is \<^verbatim>\<open>nan\<close>,
  \<open>PatientSerializer.deserialize\<close> of \<open>PatientSerializer.serialize\<close> of the sequence
  returns the sequence, equal to the input field by field: the same names, and the same
  observations in the same order with equal days and values. When, in addition, every
  integer of the records has at most 4300 digits, the same holds through a regular
  file: \<open>PatientJSONSerializer.save\<close> to a path that can be opened for writing returns,
  and whenever it returns, \<open>PatientJSONSerializer.load\<close> of that path returns the
  sequence.
\<close>

theorem round_trip:
  assumes "list_all is_patient ps" and "list_all (all_values not_nan) ps"
  shows "(\<exists>data result.
            fst (call_serialize PatientSerializer (PyList ps)) = Inr data \<and>
            fst (call_deserialize PatientSerializer data) = Inr result \<and>
            result = PyList ps \<and> batch_equal result (PyList ps)) \<and>
         (list_all (all_values printable) ps \<longrightarrow>
            (path \<notin> read_only fs \<longrightarrow>
               fst (call_save PatientJSONSerializer (PyList ps) path fs) = Inr ()) \<and>
            (fst (call_save PatientJSONSerializer (PyList ps) path fs) = Inr () \<longrightarrow>
               (\<exists>result.
                  call_load PatientJSONSerializer path
                    (snd (call_save PatientJSONSerializer (PyList ps) path fs)) = Inr result \<and>
                  result = PyList ps \<and> batch_equal result (PyList ps))))"
proof (intro conjI impI)
  from assms(1) have inst: "list_all Patient_instance ps"
    by (simp add: list_all_iff is_patient_instance)
  have eq: "batch_equal (PyList ps) (PyList ps)"
    by (rule batch_equal_refl [OF assms])
  have "fst (call_serialize PatientSerializer (PyList ps)) = Inr (PyList (map patient_record ps))"
    by (simp add: call_serialize_def PatientSerializer_serialize_instances [OF inst])
  moreover have "fst (call_deserialize PatientSerializer (PyList (map patient_record ps))) =
      Inr (PyList ps)"
    using deserialize_loop_records [OF _ inst, of PatientSerializer "[]"]
    by (simp add: call_deserialize_def PatientSerializer_deserialize_def case_prod_beta)
  ultimately show "\<exists>data result.
            fst (call_serialize PatientSerializer (PyList ps)) = Inr data \<and>
            fst (call_deserialize PatientSerializer data) = Inr result \<and>
            result = PyList ps \<and> batch_equal result (PyList ps)"
    using eq by blast
  assume pr: "list_all (all_values printable) ps"
  {
    assume "path \<notin> read_only fs"
    then show "fst (call_save PatientJSONSerializer (PyList ps) path fs) = Inr ()"
      by (simp add: save_patients [OF assms(1) pr])
  }
  assume ok: "fst (call_save PatientJSONSerializer (PyList ps) path fs) = Inr ()"
  have w: "path \<notin> read_only fs"
  proof
    assume "path \<in> read_only fs"
    then have "fst (call_save PatientJSONSerializer (PyList ps) path fs) = Inl OSError"
      by (simp add: call_save_def PatientJSONSerializer_save_def open_w_def)
    with ok show False by simp
  qed
  have "call_load PatientJSONSerializer path
          (snd (call_save PatientJSONSerializer (PyList ps) path fs)) = Inr (PyList ps)"
    by (rule load_patients [OF assms(1) pr])
      (simp add: save_patients [OF assms(1) pr w] write_text_def)
  with eq show "\<exists>result.
                  call_load PatientJSONSerializer path
                    (snd (call_save PatientJSONSerializer (PyList ps) path fs)) = Inr result \<and>
                  result = PyList ps \<and> batch_equal result (PyList ps)"
    by blast
qed

theorem round_trip_witness:
  "list_all is_patient [Alice, Bob] \<and>
   list_all (all_values not_nan) [Alice, Bob] \<and>
   list_all (all_values printable) [Alice, Bob] \<and>
   ''p.json'' \<notin> read_only no_files \<and>
   (\<exists>data result.
      fst (call_serialize PatientSerializer (PyList [Alice, Bob])) = Inr data \<and>
      fst (call_deserialize PatientSerializer data) = Inr result \<and>
      result = PyList [Alice, Bob] \<and> batch_equal result (PyList [Alice, Bob])) \<and>
   fst (call_save PatientJSONSerializer (PyList [Alice, Bob]) ''p.json'' no_files) = Inr () \<and>
   (\<exists>result.
      call_load PatientJSONSerializer ''p.json''
        (snd (call_save PatientJSONSerializer (PyList [Alice, Bob]) ''p.json'' no_files)) =
        Inr result \<and>
      result = PyList [Alice, Bob] \<and> batch_equal result (PyList [Alice, Bob]))"
proof -
  have p: "list_all is_patient [Alice, Bob]"
    and n: "list_all (all_values not_nan) [Alice, Bob]"
    and d: "list_all (all_values printable) [Alice, Bob]"
    by (simp_all add: Alice_def Bob_def)
  have w: "''p.json'' \<notin> read_only no_files"
    by (simp add: no_files_def)
  from round_trip [OF p n, of "''p.json''" no_files] p n d w
  show ?thesis by blast
qed

text \<open>
  The claim as the specification words it holds of every sequence of patient records.
  Dora's value has 4301 digits: \<open>save\<close> raises \<^verbatim>\<open>ValueError\<close> at it and leaves a text
  that \<open>load\<close> rejects. Erin's value is \<^verbatim>\<open>nan\<close>: the round trip returns it, and it is
  not equal to the value it came from.
\<close>

theorem round_trip_fails:
  "is_patient Dora \<and>
   ''p.json'' \<notin> read_only no_files \<and>
   fst (call_save PatientJSONSerializer (PyList [Dora]) ''p.json'' no_files) = Inl ValueError \<and>
   call_load PatientJSONSerializer ''p.json''
     (snd (call_save PatientJSONSerializer (PyList [Dora]) ''p.json'' no_files)) =
     Inl JSONDecodeError \<and>
   is_patient Erin \<and>
   fst (call_serialize PatientSerializer (PyList [Erin])) = Inr (PyList [patient_record Erin]) \<and>
   fst (call_deserialize PatientSerializer (PyList [patient_record Erin])) = Inr (PyList [Erin]) \<and>
   \<not> batch_equal (PyList [Erin]) (PyList [Erin])"
  by (simp add: Dora_def Erin_def no_files_def int_str_limit_not_ok py_eq_def
      call_save_def PatientJSONSerializer_save_def open_w_def write_text_def json_dump_def
      call_load_def PatientJSONSerializer_load_def open_r_def
      call_serialize_def PatientSerializer_serialize_def ObservationSerializer_serialize_def
      call_deserialize_def PatientSerializer_deserialize_def deserialize_item_def
      ObservationSerializer_deserialize_def cls_model_def construct_def)

section \<open>The output of serialize and the file format\<close>

text \<open>
  Claim C7. For every sequence of patients, \<open>PatientSerializer.serialize\<close> returns one
  generic record per patient, in the order of the input, with exactly the two keys
  \<open>name\<close> and \<open>observations\<close>, where \<open>observations\<close> holds what
  \<open>ObservationSerializer.serialize\<close> returns for that patient's observations. For every
  sequence of observations, \<open>ObservationSerializer.serialize\<close> returns one generic record
  per observation, in the order of the input, with exactly the two keys \<open>day\<close> and
  \<open>value\<close>, holding the day and the value of that observation.
\<close>

theorem serialize_output_shape:
  "(list_all Patient_instance ps \<longrightarrow>
      (\<exists>rs. fst (call_serialize PatientSerializer (PyList ps)) = Inr (PyList rs) \<and>
         length rs = length ps \<and>
         (\<forall>i<length ps. \<exists>n os sos.
            ps ! i = Patient n os \<and>
            fst (call_serialize ObservationSerializer os) = Inr sos \<and>
            rs ! i = PyDict [(''name'', n), (''observations'', sos)]))) \<and>
   (list_all Observation_instance obs \<longrightarrow>
      (\<exists>rs. fst (call_serialize ObservationSerializer (PyList obs)) = Inr (PyList rs) \<and>
         length rs = length obs \<and>
         (\<forall>i<length obs. \<exists>d v.
            obs ! i = Observation d v \<and>
            rs ! i = PyDict [(''day'', d), (''value'', v)])))"
proof (intro conjI impI)
  assume inst: "list_all Patient_instance ps"
  have "\<exists>n os sos.
          ps ! i = Patient n os \<and>
          fst (call_serialize ObservationSerializer os) = Inr sos \<and>
          map patient_record ps ! i = PyDict [(''name'', n), (''observations'', sos)]"
    if "i < length ps" for i
  proof -
    from inst that have "Patient_instance (ps ! i)"
      by (simp add: list_all_length)
    then obtain n os where p: "ps ! i = Patient n (PyList os)"
      and os: "list_all Observation_instance os"
      using Patient_instance_cases by blast
    have "fst (call_serialize ObservationSerializer (PyList os)) =
            Inr (PyList (map observation_record os))"
      by (simp add: call_serialize_def ObservationSerializer_serialize_instances [OF os])
    with p that show ?thesis by simp
  qed
  moreover have "fst (call_serialize PatientSerializer (PyList ps)) =
      Inr (PyList (map patient_record ps))"
    by (simp add: call_serialize_def PatientSerializer_serialize_instances [OF inst])
  ultimately show "\<exists>rs. fst (call_serialize PatientSerializer (PyList ps)) = Inr (PyList rs) \<and>
         length rs = length ps \<and>
         (\<forall>i<length ps. \<exists>n os sos.
            ps ! i = Patient n os \<and>
            fst (call_serialize ObservationSerializer os) = Inr sos \<and>
            rs ! i = PyDict [(''name'', n), (''observations'', sos)])"
    by (intro exI [of _ "map patient_record ps"]) simp
next
  assume inst: "list_all Observation_instance obs"
  have "\<exists>d v. obs ! i = Observation d v \<and>
          map observation_record obs ! i = PyDict [(''day'', d), (''value'', v)]"
    if "i < length obs" for i
  proof -
    from inst that have "Observation_instance (obs ! i)"
      by (simp add: list_all_length)
    then obtain d v where "obs ! i = Observation d v"
      using Observation_instance_cases by blast
    with that show ?thesis by simp
  qed
  moreover have "fst (call_serialize ObservationSerializer (PyList obs)) =
      Inr (PyList (map observation_record obs))"
    by (simp add: call_serialize_def ObservationSerializer_serialize_instances [OF inst])
  ultimately show "\<exists>rs. fst (call_serialize ObservationSerializer (PyList obs)) = Inr (PyList rs) \<and>
         length rs = length obs \<and>
         (\<forall>i<length obs. \<exists>d v.
            obs ! i = Observation d v \<and>
            rs ! i = PyDict [(''day'', d), (''value'', v)])"
    by (intro exI [of _ "map observation_record obs"]) simp
qed

theorem serialize_output_shape_witness:
  "list_all Patient_instance [Alice, Bob] \<and>
   list_all Observation_instance [Observation (PyInt 0) (PyInt 3), Observation (PyInt 1) (PyInt 4)] \<and>
   fst (call_serialize PatientSerializer (PyList [Alice, Bob])) =
     Inr (PyList
       [PyDict [(''name'', PyStr ''Alice''),
                (''observations'', PyList [PyDict [(''day'', PyInt 0), (''value'', PyInt 3)],
                                           PyDict [(''day'', PyInt 1), (''value'', PyInt 4)]])],
        PyDict [(''name'', PyStr ''Bob''),
                (''observations'', PyList [PyDict [(''day'', PyInt 0), (''value'', PyInt 10)]])]]) \<and>
   (\<exists>rs. fst (call_serialize PatientSerializer (PyList [Alice, Bob])) = Inr (PyList rs) \<and>
      length rs = length [Alice, Bob] \<and>
      (\<forall>i<length [Alice, Bob]. \<exists>n os sos.
         [Alice, Bob] ! i = Patient n os \<and>
         fst (call_serialize ObservationSerializer os) = Inr sos \<and>
         rs ! i = PyDict [(''name'', n), (''observations'', sos)])) \<and>
   (\<exists>rs. fst (call_serialize ObservationSerializer
             (PyList [Observation (PyInt 0) (PyInt 3), Observation (PyInt 1) (PyInt 4)])) =
           Inr (PyList rs) \<and>
      length rs = length [Observation (PyInt 0) (PyInt 3), Observation (PyInt 1) (PyInt 4)] \<and>
      (\<forall>i<length [Observation (PyInt 0) (PyInt 3), Observation (PyInt 1) (PyInt 4)]. \<exists>d v.
         [Observation (PyInt 0) (PyInt 3), Observation (PyInt 1) (PyInt 4)] ! i = Observation d v \<and>
         rs ! i = PyDict [(''day'', d), (''value'', v)]))"
proof -
  have p: "list_all Patient_instance [Alice, Bob]"
    by (simp add: Alice_def Bob_def)
  have q: "list_all Observation_instance
             [Observation (PyInt 0) (PyInt 3), Observation (PyInt 1) (PyInt 4)]"
    by simp
  have e: "fst (call_serialize PatientSerializer (PyList [Alice, Bob])) =
     Inr (PyList
       [PyDict [(''name'', PyStr ''Alice''),
                (''observations'', PyList [PyDict [(''day'', PyInt 0), (''value'', PyInt 3)],
                                           PyDict [(''day'', PyInt 1), (''value'', PyInt 4)]])],
        PyDict [(''name'', PyStr ''Bob''),
                (''observations'', PyList [PyDict [(''day'', PyInt 0), (''value'', PyInt 10)]])]])"
    by (simp add: Alice_def Bob_def call_serialize_def PatientSerializer_serialize_def
        ObservationSerializer_serialize_def)
  from serialize_output_shape [of "[Alice, Bob]"
      "[Observation (PyInt 0) (PyInt 3), Observation (PyInt 1) (PyInt 4)]"] p q e
  show ?thesis by blast
qed

lemma valid_number_json:
  "is_number v \<Longrightarrow> finite_value v \<Longrightarrow> valid_json (number_json v)"
proof -
  assume "is_number v" and f: "finite_value v"
  then consider i where "v = PyInt i" | x where "v = PyFloat x"
    using is_number_cases by blast
  then show ?thesis
  proof cases
    case 1
    then show ?thesis by simp
  next
    case 2
    with f show ?thesis by (cases x) simp_all
  qed
qed

lemma valid_observation_json:
  "is_observation x \<Longrightarrow> observation_values finite_value x \<Longrightarrow>
     valid_json (observation_json x)"
  using is_observation_cases [of x] by (auto simp: valid_number_json)

lemma valid_patient_json:
  assumes "is_patient p" and "all_values finite_value p"
  shows "valid_json (patient_json p)"
proof -
  from assms(1) obtain n os where p: "p = Patient (PyStr n) (PyList os)"
    and os: "list_all is_observation os"
    using is_patient_cases by blast
  from assms(2) p have "list_all (observation_values finite_value) os" by simp
  with os have "list_all valid_json (map observation_json os)"
    by (simp add: list_all_iff valid_observation_json)
  then show ?thesis by (simp add: p)
qed

text \<open>
  Claim C8, as the code has it. For a sequence of patient records whose integers have at
  most 4300 digits and whose floats are finite, the document that
  \<open>PatientJSONSerializer.save\<close> writes is an array with one object per patient, in the
  order of the input, each
  \<^verbatim>\<open>{"name": <string>, "observations": [{"day": <integer>, "value": <number>}, ...]}\<close>
  with the inner array in the order of the observations; this array is the whole text
  of the file, with no metadata, version field or comment after or inside it, and it is
  valid JSON.
\<close>

theorem on_disk_format_of_save:
  assumes "list_all is_patient ps" and "list_all (all_values printable) ps"
    and "list_all (all_values finite_value) ps" and "path \<notin> read_only fs"
  shows "fst (call_save PatientJSONSerializer (PyList ps) path fs) = Inr () \<and>
         files (snd (call_save PatientJSONSerializer (PyList ps) path fs)) path =
           Some (JSONText (JArray (map patient_json ps))) \<and>
         on_disk_format (JArray (map patient_json ps)) \<and>
         valid_json (JArray (map patient_json ps))"
proof -
  from assms(1,3) have "list_all is_patient_object (map patient_json ps)"
    and "list_all valid_json (map patient_json ps)"
    by (simp_all add: list_all_iff is_patient_object valid_patient_json)
  then show ?thesis
    by (simp add: save_patients [OF assms(1,2,4)] write_text_def)
qed

theorem on_disk_format_of_save_witness:
  "list_all is_patient [Alice, Bob] \<and> list_all (all_values printable) [Alice, Bob] \<and>
   list_all (all_values finite_value) [Alice, Bob] \<and> ''p.json'' \<notin> read_only no_files \<and>
   fst (call_save PatientJSONSerializer (PyList [Alice, Bob]) ''p.json'' no_files) = Inr () \<and>
   files (snd (call_save PatientJSONSerializer (PyList [Alice, Bob]) ''p.json'' no_files))
     ''p.json'' =
     Some (JSONText (JArray
       [JObject [(''name'', JString ''Alice''),
                 (''observations'', JArray [JObject [(''day'', JInt 0), (''value'', JInt 3)],
                                            JObject [(''day'', JInt 1), (''value'', JInt 4)]])],
        JObject [(''name'', JString ''Bob''),
                 (''observations'', JArray [JObject [(''day'', JInt 0), (''value'', JInt 10)]])]])) \<and>
   on_disk_format (JArray (map patient_json [Alice, Bob])) \<and>
   valid_json (JArray (map patient_json [Alice, Bob]))"
proof -
  have p: "list_all is_patient [Alice, Bob]"
    and d: "list_all (all_values printable) [Alice, Bob]"
    and f: "list_all (all_values finite_value) [Alice, Bob]"
    by (simp_all add: Alice_def Bob_def)
  have w: "''p.json'' \<notin> read_only no_files"
    by (simp add: no_files_def)
  have j: "map patient_json [Alice, Bob] =
       [JObject [(''name'', JString ''Alice''),
                 (''observations'', JArray [JObject [(''day'', JInt 0), (''value'', JInt 3)],
                                            JObject [(''day'', JInt 1), (''value'', JInt 4)]])],
        JObject [(''name'', JString ''Bob''),
                 (''observations'', JArray [JObject [(''day'', JInt 0), (''value'', JInt 10)]])]]"
    by (simp add: Alice_def Bob_def)
  from on_disk_format_of_save [OF p d f w] p d f w
  show ?thesis unfolding j by blast
qed

text \<open>
  The claim as the specification words it holds of every sequence of patient records.
  For Finn, whose value is \<^verbatim>\<open>inf\<close>, \<open>save\<close> writes the token \<^verbatim>\<open>Infinity\<close> where the
  format has a number; for Dora it raises and leaves a text that breaks off before her
  value.
\<close>

theorem save_writes_no_json:
  "is_patient Finn \<and>
   ''p.json'' \<notin> read_only no_files \<and>
   fst (call_save PatientJSONSerializer (PyList [Finn]) ''p.json'' no_files) = Inr () \<and>
   files (snd (call_save PatientJSONSerializer (PyList [Finn]) ''p.json'' no_files)) ''p.json'' =
     Some (JSONText (JArray
       [JObject [(''name'', JString ''Finn''),
                 (''observations'',
                  JArray [JObject [(''day'', JInt 0), (''value'', JInfinity)]])]])) \<and>
   \<not> on_disk_format (JArray
       [JObject [(''name'', JString ''Finn''),
                 (''observations'',
                  JArray [JObject [(''day'', JInt 0), (''value'', JInfinity)]])]]) \<and>
   is_patient Dora \<and>
   fst (call_save PatientJSONSerializer (PyList [Dora]) ''p.json'' no_files) = Inl ValueError \<and>
   files (snd (call_save PatientJSONSerializer (PyList [Dora]) ''p.json'' no_files)) ''p.json'' =
     Some InvalidText"
  by (simp add: Finn_def Dora_def no_files_def int_str_limit_not_ok
      call_save_def PatientJSONSerializer_save_def open_w_def write_text_def json_dump_def
      call_serialize_def PatientSerializer_serialize_def ObservationSerializer_serialize_def)

section \<open>Records and files that are rejected\<close>


lemma traverse_error_source:
  "traverse f xs = Inl e \<Longrightarrow> \<exists>x\<in>set xs. f x = Inl e"
  by (induction xs) (auto split: sum.splits)


lemma sequence_results_error:
  "sequence_results rs = Inl e \<Longrightarrow> Inl e \<in> set rs"
  by (induction rs) (auto split: sum.splits)

lemma from_json_error: "from_json j = Inl e \<Longrightarrow> e = ValueError"
proof (induction j arbitrary: e rule: from_json.induct)
  case (3 i)
  then show ?case by (simp split: if_splits)
next
  case (10 xs)
  from "10.prems" obtain e' where "sequence_results (map from_json xs) = Inl e'" and "e' = e"
    by (cases "sequence_results (map from_json xs)") simp_all
  then have "Inl e \<in> set (map from_json xs)"
    using sequence_results_error by blast
  then obtain x where "x \<in> set xs" and "from_json x = Inl e" by auto
  then show ?case by (rule "10.IH")
next
  case (11 kw)
  from "11.prems" obtain e' where
    "sequence_results (map (\<lambda>(k, v). map_sum id (Pair k) (from_json v)) kw) = Inl e'"
    and "e' = e"
    by (cases "sequence_results (map (\<lambda>(k, v). map_sum id (Pair k) (from_json v)) kw)")
      simp_all
  then have "Inl e \<in> set (map (\<lambda>(k, v). map_sum id (Pair k) (from_json v)) kw)"
    using sequence_results_error by blast
  then obtain k v where kv: "(k, v) \<in> set kw"
    and "map_sum id (Pair k) (from_json v) = Inl e" by auto
  then have "from_json v = Inl e" by (cases "from_json v") simp_all
  with kv show ?case by (rule "11.IH" [of "(k, v)" k v, OF _ refl])
qed simp_all

lemma cls_model_Observation_error:
  "cls_model ObservationSerializer d = Inl e \<Longrightarrow> e = TypeError"
  by (cases d) (auto simp: cls_model_def construct_def split: if_splits option.splits)

lemma cls_model_Patient_error:
  "model_attr cls = Some Patient_model \<Longrightarrow> cls_model cls d = Inl e \<Longrightarrow> e = TypeError"
  by (cases d) (auto simp: cls_model_def construct_def split: if_splits option.splits)

lemma ObservationSerializer_deserialize_error:
  "fst (ObservationSerializer_deserialize ObservationSerializer v) = Inl e \<Longrightarrow> e = TypeError"
proof (cases "py_iter v")
  case (Inl e')
  assume "fst (ObservationSerializer_deserialize ObservationSerializer v) = Inl e"
  with Inl show ?thesis
    by (cases v) (simp_all add: ObservationSerializer_deserialize_def)
next
  case (Inr ds)
  assume "fst (ObservationSerializer_deserialize ObservationSerializer v) = Inl e"
  with Inr have "traverse (cls_model ObservationSerializer) ds = Inl e"
    by (cases "traverse (cls_model ObservationSerializer) ds")
      (simp_all add: ObservationSerializer_deserialize_def)
  then show ?thesis
    using traverse_error_source cls_model_Observation_error by blast
qed

lemma deserialize_item_error_mapping:
  assumes "model_attr cls = Some Patient_model"
    and "fst (deserialize_item cls (PyDict kw)) = Inl e"
  shows "e = KeyError ''observations'' \<or> e = TypeError"
  using assms ObservationSerializer_deserialize_error cls_model_Patient_error [OF assms(1)]
  by (auto simp: deserialize_item_def split: option.splits sum.splits)

lemma deserialize_item_error:
  assumes "model_attr cls = Some Patient_model"
    and "fst (deserialize_item cls item) = Inl e"
  shows "e = KeyError ''observations'' \<or> e = TypeError \<or> e = AttributeError"
proof (cases item)
  case (PyDict kw)
  with assms show ?thesis using deserialize_item_error_mapping by blast
qed (use assms(2) in \<open>simp_all add: deserialize_item_def\<close>)

lemma deserialize_loop_error:
  "x \<in> set items \<Longrightarrow> fst (deserialize_item cls x) = Inl e \<Longrightarrow>
     \<exists>e'. fst (deserialize_loop cls items acc) = Inl e'"
proof (induction items arbitrary: acc)
  case Nil
  then show ?case by simp
next
  case (Cons item rest)
  show ?case
  proof (cases "fst (deserialize_item cls item)")
    case (Inl e1)
    then show ?thesis by (cases "deserialize_item cls item") simp
  next
    case (Inr p)
    with Cons.prems have "x \<in> set rest" by auto
    from Cons.IH [OF this Cons.prems(2), of "acc @ [p]"] Inr
    show ?thesis by (cases "deserialize_item cls item") (simp add: case_prod_beta)
  qed
qed

lemma deserialize_loop_error_source:
  "fst (deserialize_loop cls items acc) = Inl e \<Longrightarrow>
     \<exists>x\<in>set items. fst (deserialize_item cls x) = Inl e"
proof (induction items arbitrary: acc)
  case Nil
  then show ?case by simp
next
  case (Cons item rest)
  show ?case
  proof (cases "fst (deserialize_item cls item)")
    case (Inl e1)
    with Cons.prems have "e1 = e"
      by (cases "deserialize_item cls item") simp
    with Inl show ?thesis by simp
  next
    case (Inr p)
    with Cons.prems have "fst (deserialize_loop cls rest (acc @ [p])) = Inl e"
      by (cases "deserialize_item cls item") (simp add: case_prod_beta)
    from Cons.IH [OF this] show ?thesis by simp
  qed
qed

lemma deserialize_item_not_mapping:
  "\<not> is_mapping x \<Longrightarrow> \<exists>e. fst (deserialize_item cls x) = Inl e"
  by (cases x) (simp_all add: deserialize_item_def)

lemma PatientSerializer_deserialize_error:
  assumes "model_attr cls = Some Patient_model"
    and "fst (PatientSerializer_deserialize cls data) = Inl e"
  shows "e = KeyError ''observations'' \<or> e = TypeError \<or> e = AttributeError"
proof -
  have loop: "e' = KeyError ''observations'' \<or> e' = TypeError \<or> e' = AttributeError"
    if "fst (deserialize_loop cls items []) = Inl e'" for items e'
    using deserialize_loop_error_source [OF that] deserialize_item_error [OF assms(1)]
    by blast
  show ?thesis
  proof (cases "py_iter data")
    case (Inl e')
    with assms(2) show ?thesis
      by (cases data) (simp_all add: PatientSerializer_deserialize_def)
  next
    case (Inr items)
    with assms(2) have "fst (deserialize_loop cls items []) = Inl e"
      by (cases data; cases "fst (deserialize_loop cls items [])")
        (simp_all add: PatientSerializer_deserialize_def case_prod_beta)
    then show ?thesis by (rule loop)
  qed
qed

lemma PatientSerializer_deserialize_bad_shape:
  assumes "\<not> is_sequence_of_mappings data" and "data \<noteq> PyDict []" and "data \<noteq> PyStr []"
  shows "\<exists>e. fst (PatientSerializer_deserialize cls data) = Inl e"
proof (cases data)
  case (PyList items)
  with assms(1) obtain x where "x \<in> set items" and "\<not> is_mapping x"
    by (auto simp: list_all_iff)
  from deserialize_loop_error [OF this(1), of cls _ "[]"]
    deserialize_item_not_mapping [OF this(2), of cls]
  obtain e where "fst (deserialize_loop cls items []) = Inl e" by blast
  with PyList show ?thesis
    by (simp add: PatientSerializer_deserialize_def case_prod_beta)
next
  case (PyDict kw)
  with assms(2) obtain k v kw' where kw: "kw = (k, v) # kw'" by (cases kw) auto
  show ?thesis
    by (simp add: PyDict kw PatientSerializer_deserialize_def deserialize_item_def)
next
  case (PyStr s)
  with assms(3) obtain c s' where s: "s = c # s'" by (cases s) auto
  show ?thesis
    by (simp add: PyStr s PatientSerializer_deserialize_def deserialize_item_def)
qed (simp_all add: PatientSerializer_deserialize_def)















text \<open>
  Claim C4, as the code has it. For a file that can be read,
  \<open>PatientJSONSerializer.load\<close> raises \<^verbatim>\<open>JSONDecodeError\<close>, the format error of the
  specification, exactly when the decoder rejects the text: for every text that is no
  JSON, except that the tokens
  \<^verbatim>\<open>NaN\<close>, \<^verbatim>\<open>Infinity\<close> and \<^verbatim>\<open>-Infinity\<close> are read as floats. A file that is no text
  raises \<^verbatim>\<open>UnicodeDecodeError\<close>, a JSON text nested too deep \<^verbatim>\<open>RecursionError\<close>, and a
  text with an integer of more than 4300 digits \<^verbatim>\<open>ValueError\<close>. When the decoder
  returns a value that is no sequence of mappings, \<open>load\<close> raises \<^verbatim>\<open>TypeError\<close>,
  \<^verbatim>\<open>AttributeError\<close> or \<^verbatim>\<open>KeyError\<close>, unless the value is the empty mapping or the empty
  string; for these two it returns the empty sequence.
\<close>

theorem load_format_strictness:
  assumes "files fs path = Some t"
  shows "((call_load PatientJSONSerializer path fs = Inl JSONDecodeError) =
            (t = EmptyText \<or> t = InvalidText)) \<and>
         (t = NoText \<longrightarrow> call_load PatientJSONSerializer path fs = Inl UnicodeDecodeError) \<and>
         (t = DeepText \<longrightarrow> call_load PatientJSONSerializer path fs = Inl RecursionError) \<and>
         (t = JSONText j \<and> from_json j = Inl e \<longrightarrow>
            e = ValueError \<and> call_load PatientJSONSerializer path fs = Inl ValueError) \<and>
         (t = JSONText j \<and> from_json j = Inr data \<and> \<not> is_sequence_of_mappings data \<and>
            data \<noteq> PyDict [] \<and> data \<noteq> PyStr [] \<longrightarrow>
            call_load PatientJSONSerializer path fs = Inl TypeError \<or>
            call_load PatientJSONSerializer path fs = Inl AttributeError \<or>
            call_load PatientJSONSerializer path fs = Inl (KeyError ''observations'')) \<and>
         (t = JSONText j \<and> from_json j = Inr data \<and> (data = PyDict [] \<or> data = PyStr []) \<longrightarrow>
            call_load PatientJSONSerializer path fs = Inr (PyList []))"
proof -
  have load: "call_load PatientJSONSerializer path fs =
      (case json_load t of
         Inl e \<Rightarrow> Inl e
       | Inr data \<Rightarrow> fst (PatientSerializer_deserialize PatientJSONSerializer data))"
    using assms
    by (simp add: call_load_def PatientJSONSerializer_load_def open_r_def call_deserialize_def
        split: sum.splits)
  have kinds: "e' = KeyError ''observations'' \<or> e' = TypeError \<or> e' = AttributeError"
    if "fst (PatientSerializer_deserialize PatientJSONSerializer d) = Inl e'" for d e'
    using that by (intro PatientSerializer_deserialize_error [of PatientJSONSerializer d]) simp_all
  have 1: "(call_load PatientJSONSerializer path fs = Inl JSONDecodeError) =
            (t = EmptyText \<or> t = InvalidText)"
  proof (cases t)
    case (JSONText j')
    show ?thesis
    proof (cases "from_json j'")
      case (Inl e')
      with from_json_error [OF Inl] JSONText load show ?thesis by simp
    next
      case (Inr d)
      have "fst (PatientSerializer_deserialize PatientJSONSerializer d) \<noteq> Inl JSONDecodeError"
        using kinds [of d JSONDecodeError] by auto
      with Inr JSONText load show ?thesis by simp
    qed
  qed (simp_all add: load)
  have 2: "e = ValueError \<and> call_load PatientJSONSerializer path fs = Inl ValueError"
    if "t = JSONText j \<and> from_json j = Inl e"
    using that from_json_error [of j e] by (simp add: load)
  have 3: "call_load PatientJSONSerializer path fs = Inl TypeError \<or>
           call_load PatientJSONSerializer path fs = Inl AttributeError \<or>
           call_load PatientJSONSerializer path fs = Inl (KeyError ''observations'')"
    if a: "t = JSONText j \<and> from_json j = Inr data \<and> \<not> is_sequence_of_mappings data \<and>
            data \<noteq> PyDict [] \<and> data \<noteq> PyStr []"
  proof -
    from a obtain e' where e': "fst (PatientSerializer_deserialize PatientJSONSerializer data) = Inl e'"
      using PatientSerializer_deserialize_bad_shape [of data PatientJSONSerializer] by blast
    from kinds [OF e'] e' a show ?thesis by (auto simp: load)
  qed
  have 4: "call_load PatientJSONSerializer path fs = Inr (PyList [])"
    if "t = JSONText j \<and> from_json j = Inr data \<and> (data = PyDict [] \<or> data = PyStr [])"
    using that by (auto simp: load PatientSerializer_deserialize_def)
  from 1 2 3 4 show ?thesis by (simp add: load)
qed

theorem load_format_strictness_witness:
  "files some_files ''notes.txt'' = Some InvalidText \<and>
   call_load PatientJSONSerializer ''notes.txt'' some_files = Inl JSONDecodeError \<and>
   files some_files ''image.png'' = Some NoText \<and>
   call_load PatientJSONSerializer ''image.png'' some_files = Inl UnicodeDecodeError \<and>
   files some_files ''deep.json'' = Some DeepText \<and>
   call_load PatientJSONSerializer ''deep.json'' some_files = Inl RecursionError \<and>
   files some_files ''digits.json'' = Some (JSONText (JArray [JInt int_str_limit])) \<and>
   from_json (JArray [JInt int_str_limit]) = Inl ValueError \<and>
   call_load PatientJSONSerializer ''digits.json'' some_files = Inl ValueError \<and>
   files some_files ''object.json'' = Some (JSONText (JObject [(''name'', JString ''Alice'')])) \<and>
   from_json (JObject [(''name'', JString ''Alice'')]) = Inr (PyDict [(''name'', PyStr ''Alice'')]) \<and>
   \<not> is_sequence_of_mappings (PyDict [(''name'', PyStr ''Alice'')]) \<and>
   call_load PatientJSONSerializer ''object.json'' some_files = Inl AttributeError \<and>
   files some_files ''empty.json'' = Some (JSONText (JObject [])) \<and>
   from_json (JObject []) = Inr (PyDict []) \<and>
   call_load PatientJSONSerializer ''empty.json'' some_files = Inr (PyList []) \<and>
   files some_files ''erin.json'' = Some (JSONText Erin_json) \<and>
   call_load PatientJSONSerializer ''erin.json'' some_files \<noteq> Inl JSONDecodeError"
proof -
  have a: "files some_files ''notes.txt'' = Some InvalidText"
    and b: "files some_files ''object.json'' =
              Some (JSONText (JObject [(''name'', JString ''Alice'')]))"
    and c: "files some_files ''empty.json'' = Some (JSONText (JObject []))"
    and d: "files some_files ''image.png'' = Some NoText"
    and e: "files some_files ''deep.json'' = Some DeepText"
    and f: "files some_files ''digits.json'' = Some (JSONText (JArray [JInt int_str_limit]))"
    and g: "files some_files ''erin.json'' = Some (JSONText Erin_json)"
    by (simp_all add: some_files_def)
  have fb: "from_json (JObject [(''name'', JString ''Alice'')]) =
              Inr (PyDict [(''name'', PyStr ''Alice'')])"
    and sb: "\<not> is_sequence_of_mappings (PyDict [(''name'', PyStr ''Alice'')]) \<and>
             PyDict [(''name'', PyStr ''Alice'')] \<noteq> PyDict [] \<and>
             PyDict [(''name'', PyStr ''Alice'')] \<noteq> PyStr []"
    and fc: "from_json (JObject []) = Inr (PyDict [])"
    and ff: "from_json (JArray [JInt int_str_limit]) = Inl ValueError"
    by (simp_all add: int_str_limit_not_ok)
  have kb: "call_load PatientJSONSerializer ''object.json'' some_files \<noteq> Inl TypeError \<and>
            call_load PatientJSONSerializer ''object.json'' some_files \<noteq>
              Inl (KeyError ''observations'')"
    by (simp add: some_files_def call_load_def PatientJSONSerializer_load_def open_r_def
        call_deserialize_def PatientSerializer_deserialize_def deserialize_item_def)
  have 1: "call_load PatientJSONSerializer ''notes.txt'' some_files = Inl JSONDecodeError"
    using load_format_strictness [OF a, of JNull ValueError PyNone] by blast
  have 2: "call_load PatientJSONSerializer ''image.png'' some_files = Inl UnicodeDecodeError"
    using load_format_strictness [OF d, of JNull ValueError PyNone] by blast
  have 3: "call_load PatientJSONSerializer ''deep.json'' some_files = Inl RecursionError"
    using load_format_strictness [OF e, of JNull ValueError PyNone] by blast
  have 4: "call_load PatientJSONSerializer ''digits.json'' some_files = Inl ValueError"
    using load_format_strictness [OF f, of "JArray [JInt int_str_limit]" ValueError PyNone] ff
    by blast
  have 5: "call_load PatientJSONSerializer ''object.json'' some_files = Inl AttributeError"
    using load_format_strictness [OF b, of "JObject [(''name'', JString ''Alice'')]" ValueError
        "PyDict [(''name'', PyStr ''Alice'')]"] fb sb kb
    by blast
  have 6: "call_load PatientJSONSerializer ''empty.json'' some_files = Inr (PyList [])"
    using load_format_strictness [OF c, of "JObject []" ValueError "PyDict []"] fc by blast
  have 7: "call_load PatientJSONSerializer ''erin.json'' some_files \<noteq> Inl JSONDecodeError"
    using load_format_strictness [OF g, of JNull ValueError PyNone] by simp
  from a b c d e f g fb sb fc ff 1 2 3 4 5 6 7 show ?thesis by blast
qed

text \<open>
  The claim as the specification words it has an exception for every JSON object in
  place of the array, and for every text that is no valid JSON. The file
  \<^verbatim>\<open>empty.json\<close> holds the object \<^verbatim>\<open>{}\<close>, and \<open>load\<close> returns the empty batch for it.
  The file \<^verbatim>\<open>erin.json\<close> holds the token \<^verbatim>\<open>NaN\<close>, which is no JSON, and \<open>load\<close> returns
  Erin.
\<close>

theorem load_accepts_other_texts:
  "files some_files ''empty.json'' = Some (JSONText (JObject [])) \<and>
   valid_json (JObject []) \<and>
   from_json (JObject []) = Inr (PyDict []) \<and>
   \<not> is_sequence_of_mappings (PyDict []) \<and>
   call_load PatientJSONSerializer ''empty.json'' some_files = Inr (PyList []) \<and>
   files some_files ''erin.json'' = Some (JSONText Erin_json) \<and>
   \<not> valid_json Erin_json \<and>
   call_load PatientJSONSerializer ''erin.json'' some_files = Inr (PyList [Erin])"
  by (simp add: some_files_def Erin_json_def Erin_def call_load_def
      PatientJSONSerializer_load_def open_r_def call_deserialize_def
      PatientSerializer_deserialize_def deserialize_item_def
      ObservationSerializer_deserialize_def cls_model_def construct_def)

section \<open>What the calls leave behind\<close>

lemma call_serialize_frame: "snd (call_serialize c instances) = instances"
  by (cases c)
    (simp_all add: call_serialize_def Serializer_serialize_def
      ObservationSerializer_serialize_def PatientSerializer_serialize_def
      split: sum.splits)

lemma call_serialize_list:
  "fst (call_serialize c instances) = Inr data \<Longrightarrow> \<exists>rs. data = PyList rs"
  by (cases c)
    (auto simp: call_serialize_def Serializer_serialize_def
      ObservationSerializer_serialize_def PatientSerializer_serialize_def map_sum_def
      split: sum.splits)

lemma ObservationSerializer_deserialize_frame:
  "snd (ObservationSerializer_deserialize cls data) = data"
  by (simp add: ObservationSerializer_deserialize_def split: sum.splits)

lemma deserialize_item_success:
  assumes "model_attr cls = Some Patient_model"
    and "fst (deserialize_item cls item) = Inr p"
  shows "\<exists>kw v os n.
           item = PyDict kw \<and> map_of kw ''observations'' = Some v \<and>
           fst (ObservationSerializer_deserialize ObservationSerializer v) = Inr os \<and>
           map_of kw ''name'' = Some n \<and> p = Patient n os \<and>
           snd (deserialize_item cls item) =
             PyDict (AList.update ''observations'' os (AList.delete ''observations'' kw))"
proof (cases item)
  case (PyDict kw)
  with assms show ?thesis
    by (auto simp: deserialize_item_def cls_model_def construct_def update_conv' delete_conv'
        split: option.splits sum.splits if_splits)
qed (use assms(2) in \<open>simp_all add: deserialize_item_def\<close>)

lemma deserialize_item_frame:
  "snd (deserialize_item cls item) = item \<or>
   (\<exists>kw v. item = PyDict kw \<and> map_of kw ''observations'' = Some v \<and>
      (snd (deserialize_item cls item) = PyDict (AList.delete ''observations'' kw) \<or>
       (\<exists>os. fst (ObservationSerializer_deserialize ObservationSerializer v) = Inr os \<and>
          snd (deserialize_item cls item) =
            PyDict (AList.update ''observations'' os (AList.delete ''observations'' kw)))))"
  by (cases item) (auto simp: deserialize_item_def split: option.splits sum.splits)

lemma deserialize_loop_frame:
  "list_all2 (\<lambda>item item'. item' = item \<or> item' = snd (deserialize_item cls item))
     items (snd (deserialize_loop cls items acc))"
proof (induction items arbitrary: acc)
  case Nil
  then show ?case by simp
next
  case (Cons item rest)
  show ?case
  proof (cases "fst (deserialize_item cls item)")
    case (Inl e)
    then show ?thesis
      by (cases "deserialize_item cls item") (simp add: list_all2_same)
  next
    case (Inr p)
    with Cons.IH [of "acc @ [p]"] show ?thesis
      by (cases "deserialize_item cls item") (simp add: case_prod_beta)
  qed
qed

lemma deserialize_loop_success:
  "fst (deserialize_loop cls items acc) = Inr ps \<Longrightarrow>
     ps = acc @ map (\<lambda>item. projr (fst (deserialize_item cls item))) items \<and>
     snd (deserialize_loop cls items acc) = map (\<lambda>item. snd (deserialize_item cls item)) items \<and>
     list_all (\<lambda>item. \<exists>p. fst (deserialize_item cls item) = Inr p) items"
proof (induction items arbitrary: acc)
  case Nil
  then show ?case by simp
next
  case (Cons item rest)
  show ?case
  proof (cases "fst (deserialize_item cls item)")
    case (Inl e)
    with Cons.prems show ?thesis
      by (cases "deserialize_item cls item") simp
  next
    case (Inr p)
    with Cons.prems have "fst (deserialize_loop cls rest (acc @ [p])) = Inr ps"
      by (cases "deserialize_item cls item") (simp add: case_prod_beta)
    from Cons.IH [OF this] Inr show ?thesis
      by (cases "deserialize_item cls item") (simp add: case_prod_beta)
  qed
qed

text \<open>
  Claim C3, as the code has it. \<open>serialize\<close> leaves its input as it was, for every
  serializer, and so does \<open>ObservationSerializer.deserialize\<close>; none of them is given
  the file system. \<open>PatientSerializer.deserialize\<close> changes the mappings of \<open>data\<close>.
  When it returns, every element of \<open>data\<close> is a mapping that has kept each entry but
  \<open>observations\<close>, and its \<open>observations\<close> entry holds what
  \<open>ObservationSerializer.deserialize\<close> returns for the value the entry held before: the
  sequence of rebuilt observations, which is also the \<open>observations\<close> of the patient
  built from the mapping. When it raises, each mapping is as it was, or has lost its
  \<open>observations\<close> entry, or holds the rebuilt observations.
\<close>

theorem deserialize_frame:
  "snd (call_serialize c instances) = instances \<and>
   snd (call_deserialize ObservationSerializer data) = data \<and>
   (fst (call_deserialize PatientSerializer (PyList items)) = Inr (PyList ps) \<longrightarrow>
      (\<exists>items'.
         snd (call_deserialize PatientSerializer (PyList items)) = PyList items' \<and>
         length items' = length items \<and> length ps = length items \<and>
         (\<forall>i<length items. \<exists>kw v os n.
            items ! i = PyDict kw \<and> map_of kw ''observations'' = Some v \<and>
            fst (call_deserialize ObservationSerializer v) = Inr os \<and>
            map_of kw ''name'' = Some n \<and> ps ! i = Patient n os \<and>
            items' ! i =
              PyDict (AList.update ''observations'' os (AList.delete ''observations'' kw)) \<and>
            map_of (AList.update ''observations'' os (AList.delete ''observations'' kw)) =
              (map_of kw)(''observations'' \<mapsto> os)))) \<and>
   (\<exists>items'.
      snd (call_deserialize PatientSerializer (PyList items)) = PyList items' \<and>
      list_all2
        (\<lambda>item item'. item' = item \<or>
           (\<exists>kw v. item = PyDict kw \<and> map_of kw ''observations'' = Some v \<and>
              (item' = PyDict (AList.delete ''observations'' kw) \<or>
               (\<exists>os. fst (call_deserialize ObservationSerializer v) = Inr os \<and>
                  item' =
                    PyDict (AList.update ''observations'' os
                              (AList.delete ''observations'' kw))))))
        items items')"
proof (intro conjI impI)
  show "snd (call_serialize c instances) = instances"
    by (rule call_serialize_frame)
  show "snd (call_deserialize ObservationSerializer data) = data"
    by (simp add: call_deserialize_def ObservationSerializer_deserialize_frame)
  have obs: "call_deserialize ObservationSerializer v =
      ObservationSerializer_deserialize ObservationSerializer v" for v
    by (simp add: call_deserialize_def)
  have post: "snd (call_deserialize PatientSerializer (PyList items)) =
      PyList (snd (deserialize_loop PatientSerializer items []))"
    by (simp add: call_deserialize_def PatientSerializer_deserialize_def case_prod_beta)
  have "list_all2
        (\<lambda>item item'. item' = item \<or>
           (\<exists>kw v. item = PyDict kw \<and> map_of kw ''observations'' = Some v \<and>
              (item' = PyDict (AList.delete ''observations'' kw) \<or>
               (\<exists>os. fst (call_deserialize ObservationSerializer v) = Inr os \<and>
                  item' =
                    PyDict (AList.update ''observations'' os
                              (AList.delete ''observations'' kw))))))
        items (snd (deserialize_loop PatientSerializer items []))"
  proof (rule list_all2_mono [OF deserialize_loop_frame [of PatientSerializer items "[]"]])
    fix item item'
    assume "item' = item \<or> item' = snd (deserialize_item PatientSerializer item)"
    with deserialize_item_frame [of PatientSerializer item]
    show "item' = item \<or>
           (\<exists>kw v. item = PyDict kw \<and> map_of kw ''observations'' = Some v \<and>
              (item' = PyDict (AList.delete ''observations'' kw) \<or>
               (\<exists>os. fst (call_deserialize ObservationSerializer v) = Inr os \<and>
                  item' =
                    PyDict (AList.update ''observations'' os
                              (AList.delete ''observations'' kw)))))"
      unfolding obs by auto
  qed
  with post show "\<exists>items'.
      snd (call_deserialize PatientSerializer (PyList items)) = PyList items' \<and>
      list_all2
        (\<lambda>item item'. item' = item \<or>
           (\<exists>kw v. item = PyDict kw \<and> map_of kw ''observations'' = Some v \<and>
              (item' = PyDict (AList.delete ''observations'' kw) \<or>
               (\<exists>os. fst (call_deserialize ObservationSerializer v) = Inr os \<and>
                  item' =
                    PyDict (AList.update ''observations'' os
                              (AList.delete ''observations'' kw))))))
        items items'"
    by blast
  assume "fst (call_deserialize PatientSerializer (PyList items)) = Inr (PyList ps)"
  then have "fst (deserialize_loop PatientSerializer items []) = Inr ps"
    by (cases "fst (deserialize_loop PatientSerializer items [])")
      (simp_all add: call_deserialize_def PatientSerializer_deserialize_def case_prod_beta)
  from deserialize_loop_success [OF this]
  have ps: "ps = map (\<lambda>item. projr (fst (deserialize_item PatientSerializer item))) items"
    and items': "snd (deserialize_loop PatientSerializer items []) =
                   map (\<lambda>item. snd (deserialize_item PatientSerializer item)) items"
    and ok: "list_all (\<lambda>item. \<exists>p. fst (deserialize_item PatientSerializer item) = Inr p) items"
    by simp_all
  have each: "\<exists>kw v os n.
            items ! i = PyDict kw \<and> map_of kw ''observations'' = Some v \<and>
            fst (call_deserialize ObservationSerializer v) = Inr os \<and>
            map_of kw ''name'' = Some n \<and> ps ! i = Patient n os \<and>
            snd (deserialize_loop PatientSerializer items []) ! i =
              PyDict (AList.update ''observations'' os (AList.delete ''observations'' kw)) \<and>
            map_of (AList.update ''observations'' os (AList.delete ''observations'' kw)) =
              (map_of kw)(''observations'' \<mapsto> os)"
    if i: "i < length items" for i
  proof -
    from ok i obtain p where p: "fst (deserialize_item PatientSerializer (items ! i)) = Inr p"
      by (auto simp: list_all_length)
    from deserialize_item_success [OF _ p] obtain kw v os n where
      "items ! i = PyDict kw" "map_of kw ''observations'' = Some v"
      "fst (ObservationSerializer_deserialize ObservationSerializer v) = Inr os"
      "map_of kw ''name'' = Some n" "p = Patient n os"
      "snd (deserialize_item PatientSerializer (items ! i)) =
         PyDict (AList.update ''observations'' os (AList.delete ''observations'' kw))"
      by auto
    moreover have "map_of (AList.update ''observations'' os (AList.delete ''observations'' kw)) =
              (map_of kw)(''observations'' \<mapsto> os)"
      by (simp add: update_conv' delete_conv')
    ultimately show ?thesis
      using i p by (simp add: ps items' obs)
  qed
  show "\<exists>items'.
         snd (call_deserialize PatientSerializer (PyList items)) = PyList items' \<and>
         length items' = length items \<and> length ps = length items \<and>
         (\<forall>i<length items. \<exists>kw v os n.
            items ! i = PyDict kw \<and> map_of kw ''observations'' = Some v \<and>
            fst (call_deserialize ObservationSerializer v) = Inr os \<and>
            map_of kw ''name'' = Some n \<and> ps ! i = Patient n os \<and>
            items' ! i =
              PyDict (AList.update ''observations'' os (AList.delete ''observations'' kw)) \<and>
            map_of (AList.update ''observations'' os (AList.delete ''observations'' kw)) =
              (map_of kw)(''observations'' \<mapsto> os))"
    using post each by (intro exI [of _ "snd (deserialize_loop PatientSerializer items [])"])
      (simp add: ps items')
qed

theorem deserialize_frame_witness:
  "fst (call_deserialize PatientSerializer (PyList [Bob_record])) = Inr (PyList [Bob]) \<and>
   (\<exists>items'.
      snd (call_deserialize PatientSerializer (PyList [Bob_record])) = PyList items' \<and>
      length items' = length [Bob_record] \<and> length [Bob] = length [Bob_record] \<and>
      (\<forall>i<length [Bob_record]. \<exists>kw v os n.
         [Bob_record] ! i = PyDict kw \<and> map_of kw ''observations'' = Some v \<and>
         fst (call_deserialize ObservationSerializer v) = Inr os \<and>
         map_of kw ''name'' = Some n \<and> [Bob] ! i = Patient n os \<and>
         items' ! i =
           PyDict (AList.update ''observations'' os (AList.delete ''observations'' kw)) \<and>
         map_of (AList.update ''observations'' os (AList.delete ''observations'' kw)) =
           (map_of kw)(''observations'' \<mapsto> os)))"
proof -
  have r: "fst (call_deserialize PatientSerializer (PyList [Bob_record])) = Inr (PyList [Bob])"
    by (simp add: Bob_record_def Bob_def call_deserialize_def PatientSerializer_deserialize_def
        deserialize_item_def ObservationSerializer_deserialize_def cls_model_def construct_def)
  from deserialize_frame [of PatientSerializer "PyList [Bob]" PyNone "[Bob_record]" "[Bob]"] r
  show ?thesis by blast
qed

text \<open>
  The claim as the specification words it has every mapping of \<open>data\<close> hold after the
  call what it held before. After deserializing Bob's record, the record holds an
  instance of \<open>Observation\<close> where it held a mapping.
\<close>

theorem deserialize_changes_data:
  "snd (call_deserialize PatientSerializer (PyList [Bob_record])) =
     PyList [PyDict [(''name'', PyStr ''Bob''),
                     (''observations'', PyList [Observation (PyInt 0) (PyInt 10)])]] \<and>
   snd (call_deserialize PatientSerializer (PyList [Bob_record])) \<noteq> PyList [Bob_record]"
  by (simp add: Bob_record_def call_deserialize_def PatientSerializer_deserialize_def
      deserialize_item_def ObservationSerializer_deserialize_def cls_model_def construct_def)

lemma to_json_error: "to_json v = Inl e \<Longrightarrow> e = TypeError \<or> e = ValueError"
proof (induction v arbitrary: e rule: to_json.induct)
  case (3 i)
  then show ?case by (simp split: if_splits)
next
  case (6 xs)
  from "6.prems" obtain e' where "sequence_results (map to_json xs) = Inl e'" and "e' = e"
    by (cases "sequence_results (map to_json xs)") simp_all
  then have "Inl e \<in> set (map to_json xs)"
    using sequence_results_error by blast
  then obtain x where "x \<in> set xs" and "to_json x = Inl e" by auto
  then show ?case by (rule "6.IH")
next
  case (7 kw)
  from "7.prems" obtain e' where
    "sequence_results (map (\<lambda>(k, v). map_sum id (Pair k) (to_json v)) kw) = Inl e'"
    and "e' = e"
    by (cases "sequence_results (map (\<lambda>(k, v). map_sum id (Pair k) (to_json v)) kw)")
      simp_all
  then have "Inl e \<in> set (map (\<lambda>(k, v). map_sum id (Pair k) (to_json v)) kw)"
    using sequence_results_error by blast
  then obtain k v where kv: "(k, v) \<in> set kw"
    and "map_sum id (Pair k) (to_json v) = Inl e" by auto
  then have "to_json v = Inl e" by (cases "to_json v") simp_all
  with kv show ?case by (rule "7.IH" [of "(k, v)" k v, OF _ refl])
qed simp_all

text \<open>
  Claim C5, as the code has it. When the path cannot be opened for writing,
  \<open>PatientJSONSerializer.save\<close> raises \<^verbatim>\<open>OSError\<close> and the file system is unchanged.
  Otherwise only the file at the path changes, and in one of three ways: \<open>serialize\<close>
  raises, and the file is left empty; or the encoder raises \<^verbatim>\<open>TypeError\<close> or
  \<^verbatim>\<open>ValueError\<close>, and the file is left with an incomplete text; or the file holds the
  whole encoded document and \<open>save\<close> returns. In the first two the earlier content of
  the file is gone.
\<close>

theorem save_outcomes:
  "(path \<in> read_only fs \<longrightarrow>
      call_save PatientJSONSerializer instances path fs = (Inl OSError, fs)) \<and>
   (path \<notin> read_only fs \<longrightarrow>
      read_only (snd (call_save PatientJSONSerializer instances path fs)) = read_only fs \<and>
      (\<forall>p. p \<noteq> path \<longrightarrow>
         files (snd (call_save PatientJSONSerializer instances path fs)) p = files fs p) \<and>
      (case fst (call_serialize PatientJSONSerializer instances) of
         Inl e \<Rightarrow>
           fst (call_save PatientJSONSerializer instances path fs) = Inl e \<and>
           files (snd (call_save PatientJSONSerializer instances path fs)) path =
             Some EmptyText
       | Inr data \<Rightarrow>
           (case to_json data of
              Inr j \<Rightarrow>
                fst (call_save PatientJSONSerializer instances path fs) = Inr () \<and>
                files (snd (call_save PatientJSONSerializer instances path fs)) path =
                  Some (JSONText j)
            | Inl e \<Rightarrow>
                (e = TypeError \<or> e = ValueError) \<and>
                fst (call_save PatientJSONSerializer instances path fs) = Inl e \<and>
                files (snd (call_save PatientJSONSerializer instances path fs)) path =
                  Some InvalidText)))"
proof (intro conjI impI)
  assume "path \<in> read_only fs"
  then show "call_save PatientJSONSerializer instances path fs = (Inl OSError, fs)"
    by (simp add: call_save_def PatientJSONSerializer_save_def open_w_def)
next
  assume w: "path \<notin> read_only fs"
  show "read_only (snd (call_save PatientJSONSerializer instances path fs)) = read_only fs"
    using w call_serialize_list [of PatientJSONSerializer instances]
    by (auto simp: call_save_def PatientJSONSerializer_save_def open_w_def json_dump_def
        write_text_def split: sum.splits)
  show "\<forall>p. p \<noteq> path \<longrightarrow>
         files (snd (call_save PatientJSONSerializer instances path fs)) p = files fs p"
    using w call_serialize_list [of PatientJSONSerializer instances]
    by (auto simp: call_save_def PatientJSONSerializer_save_def open_w_def json_dump_def
        write_text_def split: sum.splits)
  show "case fst (call_serialize PatientJSONSerializer instances) of
         Inl e \<Rightarrow>
           fst (call_save PatientJSONSerializer instances path fs) = Inl e \<and>
           files (snd (call_save PatientJSONSerializer instances path fs)) path =
             Some EmptyText
       | Inr data \<Rightarrow>
           (case to_json data of
              Inr j \<Rightarrow>
                fst (call_save PatientJSONSerializer instances path fs) = Inr () \<and>
                files (snd (call_save PatientJSONSerializer instances path fs)) path =
                  Some (JSONText j)
            | Inl e \<Rightarrow>
                (e = TypeError \<or> e = ValueError) \<and>
                fst (call_save PatientJSONSerializer instances path fs) = Inl e \<and>
                files (snd (call_save PatientJSONSerializer instances path fs)) path =
                  Some InvalidText)"
    using w call_serialize_list [of PatientJSONSerializer instances] to_json_error
    by (auto simp: call_save_def PatientJSONSerializer_save_def open_w_def json_dump_def
        write_text_def split: sum.splits)
qed

theorem save_outcomes_witness:
  "''locked.json'' \<in> read_only some_files \<and>
   call_save PatientJSONSerializer (PyList [Alice, Bob]) ''locked.json'' some_files =
     (Inl OSError, some_files) \<and>
   ''patients.json'' \<notin> read_only some_files \<and>
   fst (call_save PatientJSONSerializer (PyList [Alice, Bob]) ''patients.json'' some_files) =
     Inr () \<and>
   files (snd (call_save PatientJSONSerializer (PyList [Alice, Bob]) ''patients.json'' some_files))
     ''patients.json'' = Some (JSONText (JArray (map patient_json [Alice, Bob]))) \<and>
   files (snd (call_save PatientJSONSerializer (PyList [Alice, Bob]) ''patients.json'' some_files))
     ''notes.txt'' = files some_files ''notes.txt''"
proof -
  have l: "''locked.json'' \<in> read_only some_files"
    and w: "''patients.json'' \<notin> read_only some_files"
    by (simp_all add: some_files_def)
  have s: "fst (call_serialize PatientJSONSerializer (PyList [Alice, Bob])) =
             Inr (PyList [patient_record Alice, patient_record Bob])"
    by (simp add: Alice_def Bob_def call_serialize_def PatientSerializer_serialize_def
        ObservationSerializer_serialize_def)
  have j: "to_json (PyList [patient_record Alice, patient_record Bob]) =
             Inr (JArray [patient_json Alice, patient_json Bob])"
    by (simp add: Alice_def Bob_def)
  have n: "''notes.txt'' \<noteq> ''patients.json''" by simp
  from save_outcomes [of "''locked.json''" some_files "PyList [Alice, Bob]"] l
  have 1: "call_save PatientJSONSerializer (PyList [Alice, Bob]) ''locked.json'' some_files =
     (Inl OSError, some_files)"
    by blast
  from save_outcomes [of "''patients.json''" some_files "PyList [Alice, Bob]"] w n
  have 2: "fst (call_save PatientJSONSerializer (PyList [Alice, Bob]) ''patients.json'' some_files) =
     Inr () \<and>
   files (snd (call_save PatientJSONSerializer (PyList [Alice, Bob]) ''patients.json'' some_files))
     ''patients.json'' = Some (JSONText (JArray (map patient_json [Alice, Bob]))) \<and>
   files (snd (call_save PatientJSONSerializer (PyList [Alice, Bob]) ''patients.json'' some_files))
     ''notes.txt'' = files some_files ''notes.txt''"
    by (simp add: s j del: to_json.simps)
  from l w 1 2 show ?thesis by blast
qed

text \<open>
  The claim as the specification words it has a failing \<open>save\<close> leave the file unwritten
  or unchanged. Saving Alice and Carol over a batch saved earlier fails in the encoder,
  at Carol's value, and leaves an incomplete text where the earlier batch was.
\<close>

theorem save_leaves_partial_file:
  "files some_files ''patients.json'' = Some (JSONText (JArray [])) \<and>
   fst (call_save PatientJSONSerializer (PyList [Alice, Carol]) ''patients.json'' some_files) =
     Inl TypeError \<and>
   files (snd (call_save PatientJSONSerializer (PyList [Alice, Carol]) ''patients.json'' some_files))
     ''patients.json'' = Some InvalidText"
  by (simp add: some_files_def Alice_def Carol_def call_save_def PatientJSONSerializer_save_def
      open_w_def write_text_def json_dump_def call_serialize_def
      PatientSerializer_serialize_def ObservationSerializer_serialize_def)

end
